theory Spec2Isabelle
  imports Complex_Main
begin

section \<open>Tensors\<close>

text \<open>
  The program is \<^verbatim>\<open>src/model.py\<close>: the layers of a diffusion transformer, written
  with PyTorch. A tensor is modelled as PyTorch stores a contiguous one: its shape and
  its entries in row-major order. Entries of floating-point tensors are real numbers:
  rounding and overflow are not modelled. An entry at a multi-index is read with
  \<open>entry\<close>, and a tensor is built from a function of the multi-index with \<open>tabulate\<close>.
  Every operation that raises in PyTorch returns the error as a value.
\<close>

datatype error =
  AssertionError | ZeroDivisionError | RuntimeError | IndexError | ValueError | NotANumber

fun bnd :: "error + 'a \<Rightarrow> ('a \<Rightarrow> error + 'b) \<Rightarrow> error + 'b" where
  "bnd (Inl e) f = Inl e"
| "bnd (Inr v) f = f v"

record 'a tensor =
  shape :: "nat list"
  data :: "'a list"

definition numel :: "nat list \<Rightarrow> nat" where
  "numel s = prod_list s"

text \<open>Row-major position of a multi-index, and the multi-index of a position.\<close>

fun ravel :: "nat list \<Rightarrow> nat list \<Rightarrow> nat" where
  "ravel (d # ds) (k # ks) = k * numel ds + ravel ds ks"
| "ravel _ _ = 0"

fun unravel :: "nat list \<Rightarrow> nat \<Rightarrow> nat list" where
  "unravel [] i = []"
| "unravel (d # ds) i = (i div numel ds) mod d # unravel ds i"

definition entry :: "'a tensor \<Rightarrow> nat list \<Rightarrow> 'a" where
  "entry t idx = data t ! ravel (shape t) idx"

definition tabulate :: "nat list \<Rightarrow> (nat list \<Rightarrow> 'a) \<Rightarrow> 'a tensor" where
  "tabulate s f = \<lparr>shape = s, data = map (\<lambda>i. f (unravel s i)) [0..<numel s]\<rparr>"

definition wf_tensor :: "'a tensor \<Rightarrow> bool" where
  "wf_tensor t \<longleftrightarrow> length (data t) = numel (shape t)"

definition valid_index :: "nat list \<Rightarrow> nat list \<Rightarrow> bool" where
  "valid_index s idx \<longleftrightarrow> list_all2 (\<lambda>k d. k < d) idx s"

definition map_tensor :: "('a \<Rightarrow> 'b) \<Rightarrow> 'a tensor \<Rightarrow> 'b tensor" where
  "map_tensor f t = \<lparr>shape = shape t, data = map f (data t)\<rparr>"

definition sum_upto :: "nat \<Rightarrow> (nat \<Rightarrow> real) \<Rightarrow> real" where
  "sum_upto n f = sum_list (map f [0..<n])"

subsection \<open>view, permute, transpose, unsqueeze, repeat, chunk\<close>

text \<open>
  \<^verbatim>\<open>Tensor.view(*dims)\<close>: a dimension given as \<^verbatim>\<open>-1\<close> (\<open>None\<close> here) is inferred. As in
  PyTorch's \<^verbatim>\<open>infer_size\<close>, at most one dimension may be inferred, the product of the
  given dimensions must then be positive and divide the number of entries; with no
  inferred dimension the product must equal the number of entries.
\<close>

definition view :: "nat option list \<Rightarrow> 'a tensor \<Rightarrow> error + 'a tensor" where
  "view dims t =
    (let newsize = numel (map (\<lambda>d. case d of None \<Rightarrow> 1 | Some k \<Rightarrow> k) dims);
         n = numel (shape t);
         holes = length (filter (\<lambda>d. d = None) dims)
     in if holes > 1 then Inl RuntimeError
        else if holes = 1 then
          (if newsize > 0 \<and> n mod newsize = 0
           then Inr \<lparr>shape = map (\<lambda>d. case d of None \<Rightarrow> n div newsize | Some k \<Rightarrow> k) dims,
                     data = data t\<rparr>
           else Inl RuntimeError)
        else
          (if n = newsize
           then Inr \<lparr>shape = map (\<lambda>d. case d of None \<Rightarrow> 0 | Some k \<Rightarrow> k) dims, data = data t\<rparr>
           else Inl RuntimeError))"

text \<open>
  \<^verbatim>\<open>t.permute(*perm).contiguous()\<close>: axis \<open>k\<close> of the result is axis \<open>perm ! k\<close> of \<open>t\<close>.
  The number of axes must match and \<open>perm\<close> must be a permutation.
\<close>

fun index_of :: "nat list \<Rightarrow> nat \<Rightarrow> nat" where
  "index_of [] q = 0"
| "index_of (p # ps) q = (if p = q then 0 else Suc (index_of ps q))"

definition permute :: "nat list \<Rightarrow> 'a tensor \<Rightarrow> error + 'a tensor" where
  "permute perm t =
    (let r = length (shape t)
     in if length perm = r \<and> distinct perm \<and> list_all (\<lambda>p. p < r) perm
        then Inr (tabulate (map (\<lambda>p. shape t ! p) perm)
               (\<lambda>idx. entry t (map (\<lambda>q. idx ! index_of perm q) [0..<r])))
        else Inl RuntimeError)"

text \<open>\<^verbatim>\<open>t.transpose(d0, d1)\<close>, materialised: the two axes are exchanged.\<close>

definition transpose_t :: "nat \<Rightarrow> nat \<Rightarrow> 'a tensor \<Rightarrow> error + 'a tensor" where
  "transpose_t d0 d1 t =
    (let r = length (shape t)
     in if d0 < r \<and> d1 < r then permute (([0..<r])[d0 := d1, d1 := d0]) t
        else Inl IndexError)"

text \<open>\<^verbatim>\<open>t.unsqueeze(1)\<close>: a new axis of size 1 at position 1; \<open>t\<close> needs at least one axis.\<close>

definition unsqueeze1 :: "'a tensor \<Rightarrow> error + 'a tensor" where
  "unsqueeze1 t =
    (case shape t of
       [] \<Rightarrow> Inl IndexError
     | d # ds \<Rightarrow> Inr \<lparr>shape = d # 1 # ds, data = data t\<rparr>)"

text \<open>
  \<^verbatim>\<open>t.repeat(*reps)\<close>: the shape is padded with leading ones to the length of \<open>reps\<close>
  (which must not be shorter), and the tensor is tiled \<open>reps ! k\<close> times along axis \<open>k\<close>.
\<close>

definition pad_shape :: "nat \<Rightarrow> nat list \<Rightarrow> nat list" where
  "pad_shape r s = replicate (r - length s) 1 @ s"

definition repeat_t :: "nat list \<Rightarrow> 'a tensor \<Rightarrow> error + 'a tensor" where
  "repeat_t reps t =
    (if length reps < length (shape t) then Inl RuntimeError
     else let s = pad_shape (length reps) (shape t)
          in Inr (tabulate (map2 (\<lambda>d k. d * k) s reps)
                  (\<lambda>idx. data t ! ravel s (map2 (\<lambda>k d. k mod d) idx s))))"

text \<open>
  \<^verbatim>\<open>t.chunk(n, dim=1)\<close>: pieces of \<open>ceil(S / n)\<close> consecutive positions of axis 1, where \<open>S\<close>
  is its size, the last piece taking what is left; \<open>n\<close> empty pieces when \<open>S = 0\<close>.
\<close>

definition chunk1 :: "nat \<Rightarrow> 'a tensor \<Rightarrow> error + 'a tensor list" where
  "chunk1 n t =
    (if length (shape t) < 2 then Inl IndexError
     else if n = 0 then Inl RuntimeError
     else let S = shape t ! 1;
              split_size = (S + n - 1) div n;
              count = (if S = 0 then n else (S + split_size - 1) div split_size)
          in Inr (map (\<lambda>j. tabulate ((shape t)[1 := min split_size (S - j * split_size)])
                            (\<lambda>idx. entry t (idx[1 := idx ! 1 + j * split_size])))
                      [0..<count]))"

subsection \<open>Arithmetic with broadcasting\<close>

text \<open>
  An elementwise binary operation on two tensors. The shorter shape is padded with
  leading ones; two sizes are compatible when they are equal or one of them is 1, and
  an axis of size 1 is read at position 0.
\<close>

definition broadcastable :: "nat list \<Rightarrow> nat list \<Rightarrow> bool" where
  "broadcastable s1 s2 \<longleftrightarrow> list_all2 (\<lambda>a b. a = b \<or> a = 1 \<or> b = 1) s1 s2"

definition bshape :: "nat list \<Rightarrow> nat list \<Rightarrow> nat list" where
  "bshape s1 s2 = map2 (\<lambda>a b. if a = 1 then b else a) s1 s2"

definition bidx :: "nat list \<Rightarrow> nat list \<Rightarrow> nat list" where
  "bidx s idx = map2 (\<lambda>d k. if d = 1 then 0 else k) s idx"

definition binop :: "('a \<Rightarrow> 'b \<Rightarrow> 'c) \<Rightarrow> 'a tensor \<Rightarrow> 'b tensor \<Rightarrow> error + 'c tensor" where
  "binop f t1 t2 =
    (let r = max (length (shape t1)) (length (shape t2));
         p1 = pad_shape r (shape t1);
         p2 = pad_shape r (shape t2)
     in if broadcastable p1 p2
        then Inr (tabulate (bshape p1 p2)
               (\<lambda>idx. f (data t1 ! ravel p1 (bidx p1 idx)) (data t2 ! ravel p2 (bidx p2 idx))))
        else Inl RuntimeError)"

definition add_t :: "real tensor \<Rightarrow> real tensor \<Rightarrow> error + real tensor" where
  "add_t = binop (\<lambda>a b. a + b)"

definition mul_t :: "real tensor \<Rightarrow> real tensor \<Rightarrow> error + real tensor" where
  "mul_t = binop (\<lambda>a b. a * b)"

text \<open>\<^verbatim>\<open>torch.bmm(a, b)\<close>: both of three axes, \<open>[P, Q, D]\<close> and \<open>[P, D, K]\<close>.\<close>

definition bmm :: "real tensor \<Rightarrow> real tensor \<Rightarrow> error + real tensor" where
  "bmm a b =
    (case (shape a, shape b) of
       ([P, Q, D], [P', D', K]) \<Rightarrow>
         if P = P' \<and> D = D'
         then Inr (tabulate [P, Q, K]
                (\<lambda>idx. sum_upto D (\<lambda>d. entry a [idx ! 0, idx ! 1, d] * entry b [idx ! 0, d, idx ! 2])))
         else Inl RuntimeError
     | _ \<Rightarrow> Inl RuntimeError)"

section \<open>Layers of the library\<close>

text \<open>
  The values that a constructor of the library draws for the initial parameters come
  from a stream of reals; a constructor reads the stream from its start, and the caller
  skips what was read. The distribution of the draws is not modelled.
\<close>

type_synonym rng = "nat \<Rightarrow> real"

definition rng_skip :: "nat \<Rightarrow> rng \<Rightarrow> rng" where
  "rng_skip n g = (\<lambda>k. g (n + k))"

subsection \<open>\<^verbatim>\<open>nn.Linear\<close>\<close>

text \<open>
  The weight has \<open>out_features\<close> rows of \<open>in_features\<close> entries. The layer acts on
  the last axis of its input, whose size must be \<open>in_features\<close>.
\<close>

record linear =
  in_features :: nat
  out_features :: nat
  weight :: "real list list"
  bias :: "real list option"

definition nn_Linear :: "nat \<Rightarrow> nat \<Rightarrow> bool \<Rightarrow> rng \<Rightarrow> linear" where
  "nn_Linear i out b g =
    \<lparr>in_features = i, out_features = out,
     weight = map (\<lambda>j. map (\<lambda>k. g (j * i + k)) [0..<i]) [0..<out],
     bias = (if b then Some (map (\<lambda>j. g (out * i + j)) [0..<out]) else None)\<rparr>"

definition linear_draws :: "nat \<Rightarrow> nat \<Rightarrow> bool \<Rightarrow> nat" where
  "linear_draws i out b = out * i + (if b then out else 0)"

definition dot :: "real list \<Rightarrow> real list \<Rightarrow> real" where
  "dot w x = sum_list (map2 (\<lambda>a b. a * b) w x)"

definition linear_forward :: "linear \<Rightarrow> real tensor \<Rightarrow> error + real tensor" where
  "linear_forward l t =
    (case rev (shape t) of
       [] \<Rightarrow> Inl RuntimeError
     | k # _ \<Rightarrow>
         if k = in_features l
         then Inr (tabulate (butlast (shape t) @ [out_features l])
                (\<lambda>idx. dot (weight l ! last idx)
                            (map (\<lambda>i. entry t (butlast idx @ [i])) [0..<in_features l])
                       + (case bias l of None \<Rightarrow> 0 | Some b \<Rightarrow> b ! last idx)))
         else Inl RuntimeError)"

subsection \<open>Softmax over the last axis, with masked scores\<close>

text \<open>
  A score is a real number or, after \<^verbatim>\<open>masked_fill_\<close>, negative infinity, whose
  exponential is 0. A non-empty row whose scores are all negative infinity has no
  softmax: PyTorch fills it with NaN, which no real number stands for, and the model
  reports \<open>NotANumber\<close>.
\<close>

datatype score = NegInf | Score real

fun exp_score :: "score \<Rightarrow> real" where
  "exp_score NegInf = 0"
| "exp_score (Score r) = exp r"

definition softmax_row :: "score list \<Rightarrow> real list option" where
  "softmax_row row =
    (if 0 < length row \<and> list_all (\<lambda>s. s = NegInf) row then None
     else Some (map (\<lambda>s. exp_score s / sum_list (map exp_score row)) row))"

definition row_of :: "nat \<Rightarrow> nat \<Rightarrow> 'a list \<Rightarrow> 'a list" where
  "row_of K r xs = take K (drop (r * K) xs)"

definition softmax :: "score tensor \<Rightarrow> error + real tensor" where
  "softmax t =
    (let K = (if shape t = [] then 1 else last (shape t));
         rows = map (\<lambda>r. softmax_row (row_of K r (data t))) [0..<numel (butlast (shape t))]
     in if list_ex (\<lambda>r. r = None) rows
        then Inl NotANumber
        else Inr \<lparr>shape = shape t, data = concat (map the rows)\<rparr>)"

text \<open>
  \<^verbatim>\<open>score.masked_fill_(mask, -inf)\<close>, in place: where it is called the mask has been
  viewed to the shape of the scores.
\<close>

definition masked_fill_neginf :: "real tensor \<Rightarrow> bool tensor \<Rightarrow> error + score tensor" where
  "masked_fill_neginf t m =
    (if shape m = shape t
     then Inr \<lparr>shape = shape t,
               data = map2 (\<lambda>s b. if b then NegInf else Score s) (data t) (data m)\<rparr>
     else Inl RuntimeError)"

section \<open>Attention\<close>

record attention =
  num_heads :: nat
  div_dimension :: nat
  query_projection :: linear
  key_projection :: linear
  value_projection :: linear

text \<open>
  \<^verbatim>\<open>Attention.__init__\<close> (lines 156-174): \<^verbatim>\<open>%\<close> raises on a zero head count, the assertion
  fails when the remainder is not zero, and the three projections are constructed in
  the order query, key, value. Past the assertion the quotient
  \<^verbatim>\<open>int(attention_dimension / attention_heads)\<close> is exact.
\<close>

definition Attention_init :: "nat \<Rightarrow> nat \<Rightarrow> rng \<Rightarrow> error + attention" where
  "Attention_init attention_dimension attention_heads g =
    (if attention_heads = 0 then Inl ZeroDivisionError
     else if attention_dimension mod attention_heads = 0
     then let d = attention_dimension div attention_heads;
              n = linear_draws attention_dimension (attention_heads * d) True
          in Inr \<lparr>num_heads = attention_heads, div_dimension = d,
                   query_projection = nn_Linear attention_dimension (attention_heads * d) True g,
                   key_projection =
                     nn_Linear attention_dimension (attention_heads * d) True (rng_skip n g),
                   value_projection =
                     nn_Linear attention_dimension (attention_heads * d) True
                       (rng_skip (2 * n) g)\<rparr>
     else Inl AssertionError)"

text \<open>
  \<^verbatim>\<open>Attention.forward\<close> (lines 176-241). All three inputs go through
  \<open>query_projection\<close> (lines 185, 188, 191). The heads are moved in front of the batch
  (\<^verbatim>\<open>permute(2, 0, 1, 3)\<close>), so that row \<open>h * B + b\<close> of the merged axis is head \<open>h\<close> of
  sample \<open>b\<close>; the mask is repeated per head behind the batch axis and viewed to the
  shape of the scores.
\<close>

definition project_heads :: "attention \<Rightarrow> linear \<Rightarrow> nat \<Rightarrow> real tensor \<Rightarrow> error + real tensor" where
  "project_heads a l batch_size t =
    bnd (linear_forward l t) (\<lambda>t.
    bnd (view [Some batch_size, None, Some (num_heads a), Some (div_dimension a)] t) (\<lambda>t.
    bnd (permute [2, 0, 1, 3] t)
        (view [Some (batch_size * num_heads a), None, Some (div_dimension a)])))"

definition apply_mask :: "attention \<Rightarrow> real tensor \<Rightarrow> bool tensor option \<Rightarrow> error + score tensor" where
  "apply_mask a attention_score amask =
    (case amask of
       None \<Rightarrow> Inr (map_tensor Score attention_score)
     | Some m \<Rightarrow>
         bnd (unsqueeze1 m) (\<lambda>m.
         bnd (repeat_t [1, num_heads a, 1, 1] m) (\<lambda>m.
         bnd (view (map Some (shape attention_score)) m)
             (masked_fill_neginf attention_score))))"

definition attend ::
  "attention \<Rightarrow> nat \<Rightarrow> real tensor \<Rightarrow> real tensor \<Rightarrow> real tensor \<Rightarrow> bool tensor option
    \<Rightarrow> error + real tensor \<times> real tensor" where
  "attend a batch_size query key value amask =
    bnd (transpose_t 1 2 key) (\<lambda>keyT.
    bnd (bmm query keyT) (\<lambda>qk.
    bnd (apply_mask a (map_tensor (\<lambda>s. s / sqrt (real (div_dimension a))) qk) amask)
      (\<lambda>attention_score.
    bnd (softmax attention_score) (\<lambda>attention_matrix.
    bnd (bmm attention_matrix value) (\<lambda>context.
    bnd (view [Some (num_heads a), Some batch_size, None, Some (div_dimension a)] context)
      (\<lambda>context.
    bnd (permute [1, 2, 0, 3] context) (\<lambda>context.
    bnd (view [Some batch_size, None, Some (num_heads a * div_dimension a)] context)
      (\<lambda>context.
    Inr (context, attention_matrix)))))))))"

definition Attention_forward ::
  "attention \<Rightarrow> real tensor \<Rightarrow> real tensor \<Rightarrow> real tensor \<Rightarrow> bool tensor option
    \<Rightarrow> error + real tensor \<times> real tensor" where
  "Attention_forward a query key value amask =
    (case shape value of
       [] \<Rightarrow> Inl IndexError
     | batch_size # _ \<Rightarrow>
         bnd (project_heads a (query_projection a) batch_size query) (\<lambda>query.
         bnd (project_heads a (query_projection a) batch_size key) (\<lambda>key.
         bnd (project_heads a (query_projection a) batch_size value) (\<lambda>value.
         attend a batch_size query key value amask))))"

text \<open>
  What the specification describes instead: each input through its own projection.
  This definition follows the specification, not the source.
\<close>

definition Attention_forward_spec ::
  "attention \<Rightarrow> real tensor \<Rightarrow> real tensor \<Rightarrow> real tensor \<Rightarrow> bool tensor option
    \<Rightarrow> error + real tensor \<times> real tensor" where
  "Attention_forward_spec a query key value amask =
    (case shape value of
       [] \<Rightarrow> Inl IndexError
     | batch_size # _ \<Rightarrow>
         bnd (project_heads a (query_projection a) batch_size query) (\<lambda>query.
         bnd (project_heads a (key_projection a) batch_size key) (\<lambda>key.
         bnd (project_heads a (value_projection a) batch_size value) (\<lambda>value.
         attend a batch_size query key value amask))))"

section \<open>The other layers of the library\<close>

subsection \<open>\<^verbatim>\<open>nn.LayerNorm\<close> over the last axis\<close>

text \<open>
  With \<^verbatim>\<open>elementwise_affine\<close> the layer has a weight (initially ones) and a bias (initially
  zeros); without it has none. The variance is the biased one. A row is divided by the
  square root of its variance plus \<open>eps\<close>; where that sum is not positive PyTorch
  yields NaN, and the model reports \<open>NotANumber\<close>.
\<close>

record layer_norm =
  normalized_shape :: nat
  eps :: real
  ln_weight :: "real list option"
  ln_bias :: "real list option"

definition nn_LayerNorm :: "nat \<Rightarrow> bool \<Rightarrow> real \<Rightarrow> layer_norm" where
  "nn_LayerNorm n affine e =
    \<lparr>normalized_shape = n, eps = e,
     ln_weight = (if affine then Some (replicate n 1) else None),
     ln_bias = (if affine then Some (replicate n 0) else None)\<rparr>"

definition layer_norm_row :: "layer_norm \<Rightarrow> real list \<Rightarrow> real list option" where
  "layer_norm_row l row =
    (let n = normalized_shape l;
         mean = sum_list row / real n;
         var = sum_list (map (\<lambda>v. (v - mean)\<^sup>2) row) / real n
     in if 0 < n \<and> var + eps l \<le> 0 then None
        else Some (map (\<lambda>j. (row ! j - mean) / sqrt (var + eps l)
                           * (case ln_weight l of None \<Rightarrow> 1 | Some w \<Rightarrow> w ! j)
                         + (case ln_bias l of None \<Rightarrow> 0 | Some b \<Rightarrow> b ! j))
                      [0..<n]))"

definition layer_norm_forward :: "layer_norm \<Rightarrow> real tensor \<Rightarrow> error + real tensor" where
  "layer_norm_forward l t =
    (case rev (shape t) of
       [] \<Rightarrow> Inl RuntimeError
     | k # _ \<Rightarrow>
         if k = normalized_shape l
         then let rows = map (\<lambda>r. layer_norm_row l (row_of (normalized_shape l) r (data t)))
                             [0..<numel (butlast (shape t))]
              in if list_ex (\<lambda>r. r = None) rows then Inl NotANumber
                 else Inr \<lparr>shape = shape t, data = concat (map the rows)\<rparr>
         else Inl RuntimeError)"

subsection \<open>Activations and dropout\<close>

definition silu :: "real \<Rightarrow> real" where
  "silu x = x / (1 + exp (- x))"

definition gelu_tanh :: "real \<Rightarrow> real" where
  "gelu_tanh x = 0.5 * x * (1 + tanh (sqrt (2 / pi) * (x + 0.044715 * x ^ 3)))"

text \<open>
  \<^verbatim>\<open>nn.Dropout(p)\<close> refuses a probability outside \<open>[0, 1]\<close>. In training mode with
  \<open>p > 0\<close> an entry is kept with probability \<open>1 - p\<close> and then divided by \<open>1 - p\<close>;
  which entries are kept is the draw \<open>keep\<close>. With \<open>p = 1\<close> the result is zero.
\<close>

definition nn_Dropout :: "real \<Rightarrow> error + real" where
  "nn_Dropout p = (if p < 0 \<or> p > 1 then Inl ValueError else Inr p)"

definition dropout :: "real \<Rightarrow> bool \<Rightarrow> (nat \<Rightarrow> bool) \<Rightarrow> real tensor \<Rightarrow> real tensor" where
  "dropout p training keep t =
    (if training \<and> 0 < p
     then if p = 1 then map_tensor (\<lambda>v. 0) t
          else \<lparr>shape = shape t,
                data = map (\<lambda>i. if keep i then data t ! i / (1 - p) else 0)
                           [0..<length (data t)]\<rparr>
     else t)"

section \<open>AttentionPerceptron\<close>

text \<open>
  \<^verbatim>\<open>n_tuples\<close> and \<^verbatim>\<open>to_2tuple\<close> (lines 32-41) on a value that is not iterable, as a
  \<^verbatim>\<open>bool\<close> or a \<^verbatim>\<open>float\<close> is: the value repeated.
\<close>

definition n_tuples :: "nat \<Rightarrow> 'a \<Rightarrow> 'a list" where
  "n_tuples n x = replicate n x"

definition to_2tuple :: "'a \<Rightarrow> 'a list" where
  "to_2tuple = n_tuples 2"

record attention_perceptron =
  fc1 :: linear
  drop1 :: real
  norm :: "layer_norm option"
  fc2 :: linear
  drop2 :: real
  training :: bool

definition AttentionPerceptron_init ::
  "nat \<Rightarrow> nat option \<Rightarrow> nat option \<Rightarrow> bool \<Rightarrow> bool \<Rightarrow> real \<Rightarrow> rng
    \<Rightarrow> error + attention_perceptron" where
  "AttentionPerceptron_init in_feat hidden_feat out_feat use_layer_norm use_bias dropout_prob g =
    (let out_f = (case out_feat of None \<Rightarrow> in_feat | Some k \<Rightarrow> k);
         hidden_f = (case hidden_feat of None \<Rightarrow> in_feat | Some k \<Rightarrow> k);
         biases = to_2tuple use_bias;
         drop_probs = to_2tuple dropout_prob
     in bnd (nn_Dropout (drop_probs ! 0)) (\<lambda>d1.
        bnd (nn_Dropout (drop_probs ! 1)) (\<lambda>d2.
        Inr \<lparr>fc1 = nn_Linear in_feat hidden_f (biases ! 0) g,
             drop1 = d1,
             norm = (if use_layer_norm then Some (nn_LayerNorm hidden_f True (1 / 100000))
                     else None),
             fc2 = nn_Linear hidden_f out_f (biases ! 1)
                     (rng_skip (linear_draws in_feat hidden_f (biases ! 0)) g),
             drop2 = d2,
             training = True\<rparr>)))"

definition AttentionPerceptron_forward ::
  "attention_perceptron \<Rightarrow> (nat \<Rightarrow> bool) \<Rightarrow> (nat \<Rightarrow> bool) \<Rightarrow> real tensor
    \<Rightarrow> error + real tensor" where
  "AttentionPerceptron_forward m keep1 keep2 x =
    bnd (linear_forward (fc1 m) x) (\<lambda>x.
    let x = map_tensor gelu_tanh x;
        x = dropout (drop1 m) (training m) keep1 x
    in bnd (case norm m of None \<Rightarrow> Inr x | Some l \<Rightarrow> layer_norm_forward l x) (\<lambda>x.
       bnd (linear_forward (fc2 m) x) (\<lambda>x.
       Inr (dropout (drop2 m) (training m) keep2 x))))"

section \<open>DiffusionTransformer\<close>

text \<open>\<^verbatim>\<open>modulate\<close> (lines 28-29).\<close>

definition modulate :: "real tensor \<Rightarrow> real tensor \<Rightarrow> real tensor \<Rightarrow> error + real tensor" where
  "modulate t shift scale =
    bnd (unsqueeze1 scale) (\<lambda>scale1.
    bnd (mul_t t (map_tensor (\<lambda>v. 1 + v) scale1)) (\<lambda>scaled.
    bnd (unsqueeze1 shift) (\<lambda>shift1.
    add_t scaled shift1)))"

record diffusion_transformer =
  norm1 :: layer_norm
  norm2 :: layer_norm
  attention :: attention
  perceptron_hidden_dim :: nat
  perceptron :: attention_perceptron
  adaptiveLN :: linear

text \<open>\<^verbatim>\<open>int(x)\<close> of a float: truncation towards zero.\<close>

definition py_int :: "real \<Rightarrow> int" where
  "py_int r = (if 0 \<le> r then \<lfloor>r\<rfloor> else \<lceil>r\<rceil>)"

text \<open>
  \<^verbatim>\<open>DiffusionTransformer.__init__\<close> (lines 297-332). The sub-layers are constructed in the
  order of the source; a negative size makes \<^verbatim>\<open>nn.Linear\<close> raise. Nothing else is done
  to the parameters. The width \<^verbatim>\<open>int(hidden_size * mlp_ratio)\<close> is the truncation of the
  exact product: the source truncates the product rounded to a float, so that the two
  widths can differ by one when the exact product lies just below an integer.
\<close>

definition DiffusionTransformer_init ::
  "nat \<Rightarrow> nat \<Rightarrow> nat \<Rightarrow> real \<Rightarrow> bool \<Rightarrow> real \<Rightarrow> real \<Rightarrow> bool \<Rightarrow> bool \<Rightarrow> rng
    \<Rightarrow> error + diffusion_transformer" where
  "DiffusionTransformer_init attention_embedding_size attention_heads hidden_size mlp_ratio
      layernorm_affine layernorm_epsilon perceptron_dropout_rate perceptron_bias
      perceptron_layernorm g =
    bnd (Attention_init attention_embedding_size attention_heads g) (\<lambda>att.
    let n_att = 3 * linear_draws attention_embedding_size
                      (attention_heads * (attention_embedding_size div attention_heads)) True;
        hd = py_int (real hidden_size * mlp_ratio)
    in if hd < 0 then Inl RuntimeError
       else
        bnd (AttentionPerceptron_init hidden_size (Some (nat hd)) (Some hidden_size)
               perceptron_layernorm perceptron_bias perceptron_dropout_rate (rng_skip n_att g))
          (\<lambda>mlp.
        Inr \<lparr>norm1 = nn_LayerNorm hidden_size layernorm_affine layernorm_epsilon,
             norm2 = nn_LayerNorm hidden_size layernorm_affine layernorm_epsilon,
             attention = att,
             perceptron_hidden_dim = nat hd,
             perceptron = mlp,
             adaptiveLN =
               nn_Linear hidden_size (6 * hidden_size) True
                 (rng_skip (n_att + linear_draws hidden_size (nat hd) perceptron_bias
                              + linear_draws (nat hd) hidden_size perceptron_bias) g)\<rparr>))"

text \<open>
  \<^verbatim>\<open>DiffusionTransformer.forward\<close> (lines 334-353). The attention residual is
  \<open>attn_out\<close> (line 339); the value returned adds the gated perceptron output to \<open>x\<close>
  (line 345).
\<close>

definition adaLN_chunks :: "linear \<Rightarrow> nat \<Rightarrow> real tensor \<Rightarrow> error + real tensor list" where
  "adaLN_chunks l n c = bnd (linear_forward l (map_tensor silu c)) (chunk1 n)"

definition gated :: "real tensor \<Rightarrow> real tensor \<Rightarrow> real tensor \<Rightarrow> error + real tensor" where
  "gated x gate y =
    bnd (unsqueeze1 gate) (\<lambda>gate1.
    bnd (mul_t gate1 y) (\<lambda>gy.
    add_t x gy))"

definition DiffusionTransformer_forward ::
  "diffusion_transformer \<Rightarrow> (nat \<Rightarrow> bool) \<Rightarrow> (nat \<Rightarrow> bool) \<Rightarrow> real tensor \<Rightarrow> real tensor
    \<Rightarrow> error + real tensor" where
  "DiffusionTransformer_forward m keep1 keep2 x c =
    bnd (adaLN_chunks (adaptiveLN m) 6 c) (\<lambda>chunks.
    case chunks of
      [attn_shift, attn_scale, attn_gate, mlp_shift, mlp_scale, mlp_gate] \<Rightarrow>
        bnd (layer_norm_forward (norm1 m) x) (\<lambda>n1.
        bnd (modulate n1 attn_shift attn_scale) (\<lambda>attn_input.
        bnd (Attention_forward (attention m) attn_input attn_input attn_input None) (\<lambda>att.
        bnd (gated x attn_gate (fst att)) (\<lambda>attn_out.
        bnd (layer_norm_forward (norm2 m) attn_out) (\<lambda>n2.
        bnd (modulate n2 mlp_shift mlp_scale) (\<lambda>perceptron_input.
        bnd (AttentionPerceptron_forward (perceptron m) keep1 keep2 perceptron_input) (\<lambda>p.
        gated x mlp_gate p)))))))
    | _ \<Rightarrow> Inl ValueError)"

text \<open>
  What the specification describes instead: the second residual is added to
  \<open>attn_out\<close>. This definition follows the specification, not the source.
\<close>

definition DiffusionTransformer_forward_spec ::
  "diffusion_transformer \<Rightarrow> (nat \<Rightarrow> bool) \<Rightarrow> (nat \<Rightarrow> bool) \<Rightarrow> real tensor \<Rightarrow> real tensor
    \<Rightarrow> error + real tensor" where
  "DiffusionTransformer_forward_spec m keep1 keep2 x c =
    bnd (adaLN_chunks (adaptiveLN m) 6 c) (\<lambda>chunks.
    case chunks of
      [attn_shift, attn_scale, attn_gate, mlp_shift, mlp_scale, mlp_gate] \<Rightarrow>
        bnd (layer_norm_forward (norm1 m) x) (\<lambda>n1.
        bnd (modulate n1 attn_shift attn_scale) (\<lambda>attn_input.
        bnd (Attention_forward (attention m) attn_input attn_input attn_input None) (\<lambda>att.
        bnd (gated x attn_gate (fst att)) (\<lambda>attn_out.
        bnd (layer_norm_forward (norm2 m) attn_out) (\<lambda>n2.
        bnd (modulate n2 mlp_shift mlp_scale) (\<lambda>perceptron_input.
        bnd (AttentionPerceptron_forward (perceptron m) keep1 keep2 perceptron_input) (\<lambda>p.
        gated attn_out mlp_gate p)))))))
    | _ \<Rightarrow> Inl ValueError)"

section \<open>FinalLayer\<close>

record final_layer =
  layernorm :: layer_norm
  linear_out :: linear
  AdaptiveLN :: linear

text \<open>\<^verbatim>\<open>FinalLayer.__init__\<close> (lines 361-369): three sub-layers, nothing else.\<close>

definition FinalLayer_init :: "nat \<Rightarrow> nat \<Rightarrow> nat \<Rightarrow> rng \<Rightarrow> final_layer" where
  "FinalLayer_init hidden_size patch_size out_channels g =
    \<lparr>layernorm = nn_LayerNorm hidden_size False (1 / 1000000),
     linear_out = nn_Linear hidden_size (patch_size * patch_size * out_channels) True g,
     AdaptiveLN =
       nn_Linear hidden_size (2 * hidden_size) True
         (rng_skip (linear_draws hidden_size (patch_size * patch_size * out_channels) True) g)\<rparr>"

text \<open>\<^verbatim>\<open>FinalLayer.forward\<close> (lines 371-382).\<close>

definition FinalLayer_forward :: "final_layer \<Rightarrow> real tensor \<Rightarrow> real tensor \<Rightarrow> error + real tensor" where
  "FinalLayer_forward m x c =
    bnd (adaLN_chunks (AdaptiveLN m) 2 c) (\<lambda>chunks.
    case chunks of
      [shift, scale] \<Rightarrow>
        bnd (layer_norm_forward (layernorm m) x) (\<lambda>n.
        bnd (modulate n shift scale) (\<lambda>x.
        linear_forward (linear_out m) x))
    | _ \<Rightarrow> Inl ValueError)"

text \<open>
  The initialisation that the driver applies after construction:
  \<^verbatim>\<open>nn.init.constant_(layer.weight, 0)\<close> and \<^verbatim>\<open>nn.init.constant_(layer.bias, 0)\<close>
  (lines 445-446 and 457-460).
\<close>

definition init_constant_weight :: "real \<Rightarrow> linear \<Rightarrow> linear" where
  "init_constant_weight v l = l\<lparr>weight := map (map (\<lambda>_. v)) (weight l)\<rparr>"

definition init_constant_bias :: "real \<Rightarrow> linear \<Rightarrow> linear" where
  "init_constant_bias v l = l\<lparr>bias := map_option (map (\<lambda>_. v)) (bias l)\<rparr>"

definition driver_init_DiT :: "diffusion_transformer \<Rightarrow> diffusion_transformer" where
  "driver_init_DiT m =
    m\<lparr>adaptiveLN := init_constant_bias 0 (init_constant_weight 0 (adaptiveLN m))\<rparr>"

definition driver_init_final :: "final_layer \<Rightarrow> final_layer" where
  "driver_init_final m =
    m\<lparr>AdaptiveLN := init_constant_bias 0 (init_constant_weight 0 (AdaptiveLN m)),
      linear_out := init_constant_bias 0 (init_constant_weight 0 (linear_out m))\<rparr>"

definition linear_zero :: "linear \<Rightarrow> bool" where
  "linear_zero l \<longleftrightarrow>
    list_all (list_all (\<lambda>v. v = 0)) (weight l) \<and>
    (case bias l of None \<Rightarrow> True | Some b \<Rightarrow> list_all (\<lambda>v. v = 0) b)"

section \<open>TimestepEmbedder\<close>

text \<open>\<^verbatim>\<open>torch.cat([a, b], dim=-1)\<close>: the other axes must agree.\<close>

definition cat_last :: "'a tensor \<Rightarrow> 'a tensor \<Rightarrow> error + 'a tensor" where
  "cat_last a b =
    (case (rev (shape a), rev (shape b)) of
       (ka # ra, kb # rb) \<Rightarrow>
         if ra = rb
         then Inr (tabulate (butlast (shape a) @ [ka + kb])
                (\<lambda>idx. if last idx < ka then entry a idx
                       else entry b (butlast idx @ [last idx - ka])))
         else Inl RuntimeError
     | _ \<Rightarrow> Inl RuntimeError)"

text \<open>\<^verbatim>\<open>e[:, :1]\<close> of a tensor of two axes: its first column, if it has one.\<close>

definition first_column :: "'a tensor \<Rightarrow> error + 'a tensor" where
  "first_column e =
    (case shape e of
       [B, K] \<Rightarrow> Inr (tabulate [B, min 1 K] (entry e))
     | _ \<Rightarrow> Inl IndexError)"

record timestep_embedder =
  frequency_embedding_size :: nat
  perceptron_0 :: linear
  perceptron_2 :: linear

definition TimestepEmbedder_init :: "nat \<Rightarrow> nat \<Rightarrow> bool \<Rightarrow> rng \<Rightarrow> timestep_embedder" where
  "TimestepEmbedder_init timestep_hidden_size freq_size perceptron_bias g =
    \<lparr>frequency_embedding_size = freq_size,
     perceptron_0 = nn_Linear freq_size timestep_hidden_size perceptron_bias g,
     perceptron_2 =
       nn_Linear timestep_hidden_size timestep_hidden_size perceptron_bias
         (rng_skip (linear_draws freq_size timestep_hidden_size perceptron_bias) g)\<rparr>"

text \<open>
  \<^verbatim>\<open>TimestepEmbedder.time_stepper\<close> (lines 68-87) on the timesteps of a batch, a tensor
  of one axis given as the list of its entries. \<^verbatim>\<open>math.log\<close> raises on a period that
  is not positive.
\<close>

definition time_stepper :: "real list \<Rightarrow> nat \<Rightarrow> real \<Rightarrow> error + real tensor" where
  "time_stepper ts embedding_size max_period =
    (if max_period \<le> 0 then Inl ValueError
     else
      let half = embedding_size div 2;
          frequency = map (\<lambda>i. exp (- ln max_period * real i / real half)) [0..<half];
          args = tabulate [length ts, half] (\<lambda>idx. ts ! (idx ! 0) * frequency ! (idx ! 1))
      in bnd (cat_last (map_tensor cos args) (map_tensor sin args)) (\<lambda>embedding.
         if embedding_size mod 2 = 1
         then bnd (first_column embedding) (\<lambda>col.
              cat_last embedding (map_tensor (\<lambda>v. 0) col))
         else Inr embedding))"

text \<open>\<^verbatim>\<open>TimestepEmbedder.forward\<close> (lines 89-99); \<^verbatim>\<open>max_period\<close> has its default.\<close>

definition TimestepEmbedder_forward :: "timestep_embedder \<Rightarrow> real list \<Rightarrow> error + real tensor" where
  "TimestepEmbedder_forward m ts =
    bnd (time_stepper ts (frequency_embedding_size m) 10000) (\<lambda>t_frequency.
    bnd (linear_forward (perceptron_0 m) t_frequency) (\<lambda>h.
    linear_forward (perceptron_2 m) (map_tensor silu h)))"

section \<open>LabelEmbedder\<close>

text \<open>
  The table of \<^verbatim>\<open>nn.Embedding\<close> is the list of its rows; a lookup outside the table
  raises. The labels of a batch are a tensor of one axis, given as the list of its
  entries, and the uniform draws of \<^verbatim>\<open>torch.rand\<close> are the function \<open>u\<close>.
\<close>

record label_embedder =
  num_classes :: nat
  dropout_prob :: real
  embedding_dim :: nat
  embedding_table :: "real list list"

definition LabelEmbedder_init :: "nat \<Rightarrow> nat \<Rightarrow> real \<Rightarrow> rng \<Rightarrow> label_embedder" where
  "LabelEmbedder_init n hidden_size p g =
    (let use_config_embedding = (if p > 0 then 1 else 0)
     in \<lparr>num_classes = n, dropout_prob = p, embedding_dim = hidden_size,
         embedding_table =
           map (\<lambda>r. map (\<lambda>k. g (r * hidden_size + k)) [0..<hidden_size])
               [0..<n + use_config_embedding]\<rparr>)"

definition token_dropper :: "label_embedder \<Rightarrow> (nat \<Rightarrow> real) \<Rightarrow> int list \<Rightarrow> int list" where
  "token_dropper m u labels =
    map (\<lambda>i. if u i < dropout_prob m then int (num_classes m) else labels ! i)
        [0..<length labels]"

definition LabelEmbedder_indices :: "label_embedder \<Rightarrow> (nat \<Rightarrow> real) \<Rightarrow> int list \<Rightarrow> int list" where
  "LabelEmbedder_indices m u labels =
    (if dropout_prob m > 0 then token_dropper m u labels else labels)"

definition embedding_lookup :: "real list list \<Rightarrow> nat \<Rightarrow> int list \<Rightarrow> error + real tensor" where
  "embedding_lookup table width idxs =
    (if list_all (\<lambda>l. 0 \<le> l \<and> l < int (length table)) idxs
     then Inr \<lparr>shape = [length idxs, width], data = concat (map (\<lambda>l. table ! nat l) idxs)\<rparr>
     else Inl IndexError)"

definition LabelEmbedder_forward ::
  "label_embedder \<Rightarrow> (nat \<Rightarrow> real) \<Rightarrow> int list \<Rightarrow> error + real tensor" where
  "LabelEmbedder_forward m u labels =
    embedding_lookup (embedding_table m) (embedding_dim m) (LabelEmbedder_indices m u labels)"

section \<open>Sizes of the parameters\<close>

text \<open>
  The parameters of a layer are lists; these predicates say that they have the sizes
  that the constructors give them and that training keeps, and that the \<open>eps\<close> of a
  normalisation is positive.
\<close>

definition linear_wf :: "linear \<Rightarrow> bool" where
  "linear_wf l \<longleftrightarrow>
     length (weight l) = out_features l \<and>
     (case bias l of None \<Rightarrow> True | Some b \<Rightarrow> length b = out_features l)"

definition block_dims :: "diffusion_transformer \<Rightarrow> nat \<Rightarrow> bool" where
  "block_dims m H \<longleftrightarrow>
     normalized_shape (norm1 m) = H \<and> normalized_shape (norm2 m) = H \<and>
     0 < eps (norm1 m) \<and> 0 < eps (norm2 m) \<and>
     in_features (query_projection (attention m)) = H \<and>
     out_features (query_projection (attention m))
       = num_heads (attention m) * div_dimension (attention m) \<and>
     num_heads (attention m) * div_dimension (attention m) = H \<and>
     in_features (fc1 (perceptron m)) = H \<and>
     in_features (fc2 (perceptron m)) = out_features (fc1 (perceptron m)) \<and>
     (case norm (perceptron m) of
        None \<Rightarrow> True
      | Some l \<Rightarrow> normalized_shape l = out_features (fc1 (perceptron m)) \<and> 0 < eps l) \<and>
     out_features (fc2 (perceptron m)) = H \<and>
     in_features (adaptiveLN m) = H \<and> out_features (adaptiveLN m) = 6 * H"

definition final_dims :: "final_layer \<Rightarrow> nat \<Rightarrow> nat \<Rightarrow> bool" where
  "final_dims m H P \<longleftrightarrow>
     normalized_shape (layernorm m) = H \<and> 0 < eps (layernorm m) \<and>
     in_features (AdaptiveLN m) = H \<and> out_features (AdaptiveLN m) = 2 * H \<and>
     in_features (linear_out m) = H \<and> out_features (linear_out m) = P \<and>
     linear_wf (linear_out m)"

section \<open>Concrete inputs\<close>

text \<open>An attention layer of dimension 1 with one head, whose three projections differ.\<close>

definition ex1_linear :: "real \<Rightarrow> linear" where
  "ex1_linear w = \<lparr>in_features = 1, out_features = 1, weight = [[w]], bias = Some [0]\<rparr>"

definition ex1_attention :: attention where
  "ex1_attention =
    \<lparr>num_heads = 1, div_dimension = 1, query_projection = ex1_linear 1,
     key_projection = ex1_linear 1, value_projection = ex1_linear 2\<rparr>"

definition ex1_x :: "real tensor" where
  "ex1_x = \<lparr>shape = [1, 1, 1], data = [1]\<rparr>"

definition ex1_spec_context :: "real tensor" where
  "ex1_spec_context = \<lparr>shape = [1, 1, 1], data = [2]\<rparr>"

text \<open>A stream of draws that is constantly one half.\<close>

definition ex4_rng :: rng where
  "ex4_rng = (\<lambda>k. 1 / 2)"

definition ex4_linear :: "nat \<Rightarrow> linear" where
  "ex4_linear n =
    \<lparr>in_features = 1, out_features = n, weight = replicate n [1 / 2],
     bias = Some (replicate n (1 / 2))\<rparr>"

definition ex4_dit :: diffusion_transformer where
  "ex4_dit =
    \<lparr>norm1 = \<lparr>normalized_shape = 1, eps = 1 / 1000000, ln_weight = None, ln_bias = None\<rparr>,
     norm2 = \<lparr>normalized_shape = 1, eps = 1 / 1000000, ln_weight = None, ln_bias = None\<rparr>,
     attention =
       \<lparr>num_heads = 1, div_dimension = 1, query_projection = ex4_linear 1,
        key_projection = ex4_linear 1, value_projection = ex4_linear 1\<rparr>,
     perceptron_hidden_dim = 1,
     perceptron =
       \<lparr>fc1 = ex4_linear 1, drop1 = 0,
        norm = Some \<lparr>normalized_shape = 1, eps = 1 / 100000, ln_weight = Some [1],
                     ln_bias = Some [0]\<rparr>,
        fc2 = ex4_linear 1, drop2 = 0, training = True\<rparr>,
     adaptiveLN = ex4_linear 6\<rparr>"

text \<open>
  Two samples of two tokens, dimension 2, two heads; the mask hides key 1 in sample 0
  and nothing in sample 1. Query and key are zero, so that all scores are equal; the
  entries of the value are all different.
\<close>

definition ex2_linear :: linear where
  "ex2_linear =
    \<lparr>in_features = 2, out_features = 2, weight = [[1, 0], [0, 1]], bias = Some [0, 0]\<rparr>"

definition ex2_attention :: attention where
  "ex2_attention =
    \<lparr>num_heads = 2, div_dimension = 1, query_projection = ex2_linear,
     key_projection = ex2_linear, value_projection = ex2_linear\<rparr>"

definition ex2_x :: "real tensor" where
  "ex2_x = \<lparr>shape = [2, 2, 2], data = [0, 0, 0, 0, 0, 0, 0, 0]\<rparr>"

definition ex2_mask :: "bool tensor" where
  "ex2_mask =
    \<lparr>shape = [2, 2, 2], data = [False, True, False, True, False, False, False, False]\<rparr>"

definition ex2_value :: "real tensor" where
  "ex2_value = \<lparr>shape = [2, 2, 2], data = [1, 2, 3, 4, 5, 6, 7, 8]\<rparr>"

definition ex2_value_heads :: "real tensor" where
  "ex2_value_heads = \<lparr>shape = [4, 2, 1], data = [1, 3, 5, 7, 2, 4, 6, 8]\<rparr>"

definition ex2_context_heads :: "real tensor" where
  "ex2_context_heads = \<lparr>shape = [4, 2, 1], data = [1, 1, 5, 5, 3, 3, 7, 7]\<rparr>"

definition ex2_context :: "real tensor" where
  "ex2_context = \<lparr>shape = [2, 2, 2], data = [1, 3, 1, 3, 5, 7, 5, 7]\<rparr>"

definition ex2_heads :: "real tensor" where
  "ex2_heads = \<lparr>shape = [4, 2, 1], data = [0, 0, 0, 0, 0, 0, 0, 0]\<rparr>"

definition ex2_keyT :: "real tensor" where
  "ex2_keyT = \<lparr>shape = [4, 1, 2], data = [0, 0, 0, 0, 0, 0, 0, 0]\<rparr>"

definition ex2_scores :: "real tensor" where
  "ex2_scores =
    \<lparr>shape = [4, 2, 2], data = [0, 0, 0, 0, 0, 0, 0, 0, 0, 0, 0, 0, 0, 0, 0, 0]\<rparr>"

definition ex2_masked :: "score tensor" where
  "ex2_masked =
    \<lparr>shape = [4, 2, 2],
     data = [Score 0, NegInf, Score 0, NegInf, Score 0, NegInf, Score 0, NegInf,
             Score 0, Score 0, Score 0, Score 0, Score 0, Score 0, Score 0, Score 0]\<rparr>"

definition ex2_weights :: "real tensor" where
  "ex2_weights =
    \<lparr>shape = [4, 2, 2],
     data = [1, 0, 1, 0, 1, 0, 1, 0, 1 / 2, 1 / 2, 1 / 2, 1 / 2, 1 / 2, 1 / 2, 1 / 2, 1 / 2]\<rparr>"

text \<open>
  A block of hidden size 1 with one head, whose conditioning projection gives the
  attention gate 1 and zero for the other five vectors.
\<close>

definition ex3_linear :: "real \<Rightarrow> real \<Rightarrow> linear" where
  "ex3_linear w b = \<lparr>in_features = 1, out_features = 1, weight = [[w]], bias = Some [b]\<rparr>"

definition ex3_norm :: layer_norm where
  "ex3_norm = \<lparr>normalized_shape = 1, eps = 1 / 1000000, ln_weight = None, ln_bias = None\<rparr>"

definition ex3_attention :: attention where
  "ex3_attention =
    \<lparr>num_heads = 1, div_dimension = 1, query_projection = ex3_linear 1 1,
     key_projection = ex3_linear 1 1, value_projection = ex3_linear 1 1\<rparr>"

definition ex3_perceptron :: attention_perceptron where
  "ex3_perceptron =
    \<lparr>fc1 = ex3_linear 1 0, drop1 = 0, norm = None, fc2 = ex3_linear 1 0, drop2 = 0,
     training = True\<rparr>"

definition ex3_adaLN :: linear where
  "ex3_adaLN =
    \<lparr>in_features = 1, out_features = 6, weight = [[0], [0], [0], [0], [0], [0]],
     bias = Some [0, 0, 1, 0, 0, 0]\<rparr>"

definition ex3_dit :: diffusion_transformer where
  "ex3_dit =
    \<lparr>norm1 = ex3_norm, norm2 = ex3_norm, attention = ex3_attention,
     perceptron_hidden_dim = 1, perceptron = ex3_perceptron, adaptiveLN = ex3_adaLN\<rparr>"

definition ex3_keep :: "nat \<Rightarrow> bool" where
  "ex3_keep = (\<lambda>i. True)"

definition ex3_c :: "real tensor" where
  "ex3_c = \<lparr>shape = [1, 1], data = [0]\<rparr>"

definition ex3_vec :: "real \<Rightarrow> real tensor" where
  "ex3_vec v = \<lparr>shape = [1, 1], data = [v]\<rparr>"

definition ex3_tok :: "real \<Rightarrow> real tensor" where
  "ex3_tok v = \<lparr>shape = [1, 1, 1], data = [v]\<rparr>"

text \<open>What the constructor of Attention builds for dimension 2 and two heads from draws of one half.\<close>

definition ex8_linear :: linear where
  "ex8_linear =
    \<lparr>in_features = 2, out_features = 2, weight = [[1 / 2, 1 / 2], [1 / 2, 1 / 2]],
     bias = Some [1 / 2, 1 / 2]\<rparr>"

definition ex8_attention :: attention where
  "ex8_attention =
    \<lparr>num_heads = 2, div_dimension = 1, query_projection = ex8_linear,
     key_projection = ex8_linear, value_projection = ex8_linear\<rparr>"

section \<open>Facts about indices and tensors\<close>

lemma valid_index_length: "valid_index s idx \<Longrightarrow> length idx = length s"
  by (simp add: valid_index_def list_all2_lengthD)

lemma valid_index_Cons [simp]:
  "valid_index (d # ds) (k # ks) \<longleftrightarrow> k < d \<and> valid_index ds ks"
  by (simp add: valid_index_def)

lemma valid_index_Nil [simp]: "valid_index [] idx \<longleftrightarrow> idx = []"
  by (simp add: valid_index_def)

lemma valid_index_Cons_iff:
  "valid_index (d # ds) idx \<longleftrightarrow> (\<exists>k ks. idx = k # ks \<and> k < d \<and> valid_index ds ks)"
  by (cases idx) (auto simp: valid_index_def)

lemma numel_Cons [simp]: "numel (d # ds) = d * numel ds"
  by (simp add: numel_def)

lemma numel_Nil [simp]: "numel [] = 1"
  by (simp add: numel_def)

lemma numel_append [simp]: "numel (xs @ ys) = numel xs * numel ys"
  by (simp add: numel_def)

lemma ravel_less: "valid_index s idx \<Longrightarrow> ravel s idx < numel s"
proof (induction s arbitrary: idx)
  case Nil
  then show ?case by simp
next
  case (Cons d ds)
  then obtain k ks where idx: "idx = k # ks" "k < d" "valid_index ds ks"
    by (auto simp: valid_index_Cons_iff)
  have "ravel ds ks < numel ds" using Cons.IH idx by simp
  moreover have "Suc k * numel ds \<le> d * numel ds"
    using idx(2) by (intro mult_le_mono1) simp
  ultimately show ?case using idx by simp
qed

lemma numel_pos: "0 < numel s \<longleftrightarrow> list_all (\<lambda>d. 0 < d) s"
  by (induction s) auto

lemma unravel_valid_pos: "list_all (\<lambda>d. 0 < d) s \<Longrightarrow> valid_index s (unravel s i)"
  by (induction s) auto

lemma unravel_valid: "i < numel s \<Longrightarrow> valid_index s (unravel s i)"
proof -
  assume "i < numel s"
  then have "0 < numel s" by simp
  then show ?thesis by (simp add: numel_pos unravel_valid_pos)
qed

lemma length_unravel [simp]: "length (unravel s i) = length s"
  by (induction s) auto

lemma ravel_unravel_mod: "ravel s (unravel s i) = i mod numel s"
proof (induction s)
  case Nil
  then show ?case by simp
next
  case (Cons d ds)
  have "i mod (numel ds * d) = numel ds * (i div numel ds mod d) + i mod numel ds"
    by (rule mod_mult2_eq)
  then show ?case using Cons.IH by (simp add: mult.commute)
qed

lemma ravel_unravel: "i < numel s \<Longrightarrow> ravel s (unravel s i) = i"
  by (simp add: ravel_unravel_mod)

lemma unravel_add_mult: "unravel s (i + k * numel s) = unravel s i"
proof (induction s arbitrary: k)
  case Nil
  then show ?case by simp
next
  case (Cons d ds)
  have tail: "unravel ds (i + k * (d * numel ds)) = unravel ds i"
    using Cons.IH [of "k * d"] by (simp add: mult.assoc)
  have hd: "(i + k * (d * numel ds)) div numel ds mod d = i div numel ds mod d"
  proof (cases "numel ds = 0")
    case True
    then show ?thesis by simp
  next
    case False
    then have "(i + k * (d * numel ds)) div numel ds = i div numel ds + k * d"
      by (simp add: mult.assoc [symmetric])
    then show ?thesis by simp
  qed
  show ?case using tail hd by simp
qed

lemma unravel_ravel: "valid_index s idx \<Longrightarrow> unravel s (ravel s idx) = idx"
proof (induction s arbitrary: idx)
  case Nil
  then show ?case by simp
next
  case (Cons d ds)
  then obtain k ks where idx: "idx = k # ks" "k < d" "valid_index ds ks"
    by (auto simp: valid_index_Cons_iff)
  have r: "ravel ds ks < numel ds" using idx(3) by (rule ravel_less)
  have tail: "unravel ds (k * numel ds + ravel ds ks) = ks"
    using unravel_add_mult [of ds "ravel ds ks" k] Cons.IH [OF idx(3)] by (simp add: add.commute)
  have hd: "(k * numel ds + ravel ds ks) div numel ds mod d = k"
    using r idx(2) by simp
  show ?case using tail hd idx by simp
qed

lemma shape_tabulate [simp]: "shape (tabulate s f) = s"
  by (simp add: tabulate_def)

lemma length_data_tabulate [simp]: "length (data (tabulate s f)) = numel s"
  by (simp add: tabulate_def)

lemma wf_tabulate [simp]: "wf_tensor (tabulate s f)"
  by (simp add: wf_tensor_def)

lemma data_tabulate_nth: "i < numel s \<Longrightarrow> data (tabulate s f) ! i = f (unravel s i)"
  by (simp add: tabulate_def)

lemma entry_tabulate: "valid_index s idx \<Longrightarrow> entry (tabulate s f) idx = f idx"
  by (simp add: entry_def data_tabulate_nth ravel_less unravel_ravel)

lemma tabulate_entry_self:
  "wf_tensor t \<Longrightarrow> tabulate (shape t) (entry t) = t"
  by (cases t) (auto simp: tabulate_def entry_def wf_tensor_def ravel_unravel intro!: nth_equalityI)

subsection \<open>Evaluation of concrete tensors\<close>

lemmas upt_unroll = upt_rec [of 0] upt_rec [of "Suc i"] for i

lemmas tensor_eval =
  tabulate_def entry_def view_def permute_def transpose_t_def bmm_def sum_upto_def
  map_tensor_def row_of_def unsqueeze1_def repeat_t_def pad_shape_def dot_def
  linear_forward_def Let_def upt_unroll

subsection \<open>The error monad\<close>

lemma bnd_InrE:
  assumes "bnd m f = Inr y"
  obtains x where "m = Inr x" and "f x = Inr y"
  using assms by (cases m) auto

lemma bnd_Inr_iff: "bnd m f = Inr y \<longleftrightarrow> (\<exists>x. m = Inr x \<and> f x = Inr y)"
  by (cases m) auto

subsection \<open>Tabulated tensors\<close>

lemma tabulate_cong:
  assumes "\<And>idx. valid_index s idx \<Longrightarrow> f idx = g idx"
  shows "tabulate s f = tabulate s g"
  using assms by (simp add: tabulate_def unravel_valid)

lemma data_tabulate_all:
  assumes "\<And>idx. valid_index s idx \<Longrightarrow> P (f idx)"
  shows "list_all P (data (tabulate s f))"
  using assms by (simp add: tabulate_def list_all_iff unravel_valid)

lemma entry_all:
  assumes "list_all P (data t)" and "wf_tensor t" and "valid_index (shape t) idx"
  shows "P (entry t idx)"
proof -
  have "ravel (shape t) idx < length (data t)"
    using assms(2,3) by (simp add: wf_tensor_def ravel_less)
  then show ?thesis using assms(1) by (simp add: entry_def list_all_length)
qed

lemma shape_map_tensor [simp]: "shape (map_tensor f t) = shape t"
  by (simp add: map_tensor_def)

subsection \<open>view\<close>

lemma view_infer:
  assumes "numel (shape t) = k * numel (pre @ post)" and "0 < numel (pre @ post)"
  shows "view (map Some pre @ None # map Some post) t
           = Inr \<lparr>shape = pre @ k # post, data = data t\<rparr>"
proof -
  have f: "filter (\<lambda>d. d = None) (map Some xs) = []" for xs :: "nat list"
    by (induction xs) auto
  have m: "map (case_option z (\<lambda>k. k)) (map Some xs) = xs" for xs :: "nat list" and z
    by (induction xs) auto
  have n: "numel (map (case_option 1 (\<lambda>k. k)) (map Some pre @ None # map Some post))
             = numel (pre @ post)"
    by (simp add: m o_def)
  show ?thesis
    unfolding view_def Let_def n
    using assms by (simp add: f m o_def)
qed

lemma view_infer_1:
  assumes "shape t = s" and "numel s = k * (a * numel post)" and "0 < a * numel post"
  shows "view (Some a # None # map Some post) t = Inr \<lparr>shape = a # k # post, data = data t\<rparr>"
  using view_infer [of t k "[a]" post] assms by simp


subsection \<open>Linear layers and normalisation\<close>

lemma linear_forward_shape:
  assumes "shape t = s @ [in_features l]"
  shows "linear_forward l t =
           Inr (tabulate (s @ [out_features l])
             (\<lambda>idx. dot (weight l ! last idx)
                         (map (\<lambda>i. entry t (butlast idx @ [i])) [0..<in_features l])
                    + (case bias l of None \<Rightarrow> 0 | Some b \<Rightarrow> b ! last idx)))"
  using assms by (simp add: linear_forward_def)

lemma linear_forward_ex:
  assumes "shape t = s @ [in_features l]"
  shows "\<exists>t'. linear_forward l t = Inr t' \<and> shape t' = s @ [out_features l] \<and> wf_tensor t'"
  using linear_forward_shape [OF assms] by simp

lemma dot_zero: "list_all (\<lambda>v. v = 0) w \<Longrightarrow> dot w x = 0"
proof (induction w arbitrary: x)
  case Nil
  then show ?case by (simp add: dot_def)
next
  case (Cons a w)
  then show ?case by (cases x) (simp_all add: dot_def)
qed

lemma valid_index_last:
  assumes "valid_index (s @ [n]) idx"
  shows "last idx < n"
proof -
  from assms have "list_all2 (\<lambda>k d. k < d) idx (s @ [n])" by (simp add: valid_index_def)
  then obtain us vs where "idx = us @ vs" "list_all2 (\<lambda>k d. k < d) vs [n]"
    unfolding list_all2_append2 by blast
  then show ?thesis by (cases vs) (simp_all add: list_all2_Cons2)
qed

lemma linear_forward_zero:
  assumes "shape t = s @ [in_features l]" and "linear_zero l" and "linear_wf l"
  shows "linear_forward l t = Inr (tabulate (s @ [out_features l]) (\<lambda>idx. 0))"
proof -
  have "dot (weight l ! last idx)
            (map (\<lambda>i. entry t (butlast idx @ [i])) [0..<in_features l])
          + (case bias l of None \<Rightarrow> 0 | Some b \<Rightarrow> b ! last idx) = 0"
    if "valid_index (s @ [out_features l]) idx" for idx
  proof -
    have j: "last idx < out_features l" using that by (rule valid_index_last)
    then have "list_all (\<lambda>v. v = 0) (weight l ! last idx)"
      using assms(2,3) by (simp add: linear_zero_def linear_wf_def list_all_length)
    then have d: "dot (weight l ! last idx) x = 0" for x by (rule dot_zero)
    have "(case bias l of None \<Rightarrow> 0 | Some b \<Rightarrow> b ! last idx) = 0"
      using assms(2,3) j
      by (cases "bias l") (simp_all add: linear_zero_def linear_wf_def list_all_length)
    then show ?thesis using d by simp
  qed
  then have "tabulate (s @ [out_features l])
               (\<lambda>idx. dot (weight l ! last idx)
                           (map (\<lambda>i. entry t (butlast idx @ [i])) [0..<in_features l])
                      + (case bias l of None \<Rightarrow> 0 | Some b \<Rightarrow> b ! last idx))
             = tabulate (s @ [out_features l]) (\<lambda>idx. 0)"
    by (rule tabulate_cong)
  then show ?thesis
    unfolding linear_forward_shape [OF assms(1)] by simp
qed

lemma length_concat_map_const:
  assumes "\<And>r. r < m \<Longrightarrow> length (f r) = n"
  shows "length (concat (map f [0..<m])) = m * n"
  using assms
proof (induction m)
  case 0
  then show ?case by simp
next
  case (Suc m)
  then show ?case by simp
qed

lemma variance_nonneg: "0 \<le> sum_list (map (\<lambda>v. (v - m)\<^sup>2) (row :: real list)) / real n"
  by (intro divide_nonneg_nonneg sum_list_nonneg) auto

lemma layer_norm_row_Some:
  assumes "0 < eps l"
  shows "\<exists>ys. layer_norm_row l row = Some ys \<and> length ys = normalized_shape l"
proof -
  let ?mean = "sum_list row / real (normalized_shape l)"
  have "0 \<le> sum_list (map (\<lambda>v. (v - ?mean)\<^sup>2) row) / real (normalized_shape l)"
    by (rule variance_nonneg)
  then have "\<not> sum_list (map (\<lambda>v. (v - ?mean)\<^sup>2) row) / real (normalized_shape l) + eps l \<le> 0"
    using assms by linarith
  then show ?thesis by (simp add: layer_norm_row_def Let_def)
qed

lemma layer_norm_forward_ex:
  assumes "shape t = s @ [normalized_shape l]" and "0 < eps l"
  shows "\<exists>t'. layer_norm_forward l t = Inr t' \<and> shape t' = shape t \<and> wf_tensor t'"
proof -
  let ?rows = "map (\<lambda>r. layer_norm_row l (row_of (normalized_shape l) r (data t))) [0..<numel s]"
  have "layer_norm_row l row \<noteq> None" for row
    using layer_norm_row_Some [OF assms(2), of row] by auto
  then have none: "\<not> list_ex (\<lambda>r. r = None) ?rows"
    unfolding list_ex_iff by (metis (no_types, lifting) imageE list.set_map)
  have "length (concat (map (\<lambda>r. the (layer_norm_row l (row_of (normalized_shape l) r (data t))))
                            [0..<numel s])) = numel s * normalized_shape l"
  proof (rule length_concat_map_const)
    fix r
    show "length (the (layer_norm_row l (row_of (normalized_shape l) r (data t))))
            = normalized_shape l"
      using layer_norm_row_Some [OF assms(2), of "row_of (normalized_shape l) r (data t)"]
      by auto
  qed
  then show ?thesis
    using assms(1) none by (simp add: layer_norm_forward_def wf_tensor_def Let_def o_def)
qed

subsection \<open>Broadcasting\<close>

lemma binop_same_rank:
  assumes "length (shape t1) = length (shape t2)"
    and "broadcastable (shape t1) (shape t2)"
  shows "binop f t1 t2 =
           Inr (tabulate (bshape (shape t1) (shape t2))
             (\<lambda>idx. f (entry t1 (bidx (shape t1) idx)) (entry t2 (bidx (shape t2) idx))))"
  using assms by (simp add: binop_def pad_shape_def entry_def Let_def)

lemma bidx_valid_left:
  assumes "broadcastable s1 s2" and "valid_index (bshape s1 s2) idx"
  shows "valid_index s1 (bidx s1 idx)"
  using assms
proof (induction s1 arbitrary: s2 idx)
  case Nil
  then show ?case by (simp add: bidx_def)
next
  case (Cons a s1)
  from Cons.prems(1) obtain b s2' where s2: "s2 = b # s2'"
    and ab: "a = b \<or> a = 1 \<or> b = 1" and rest: "broadcastable s1 s2'"
    by (auto simp: broadcastable_def list_all2_Cons1)
  from Cons.prems(2) s2 obtain k ks where idx: "idx = k # ks"
    and k: "k < (if a = 1 then b else a)" and ks: "valid_index (bshape s1 s2') ks"
    by (auto simp: bshape_def valid_index_Cons_iff)
  have "valid_index s1 (bidx s1 ks)" using Cons.IH [OF rest ks] .
  then show ?case using idx k by (auto simp: bidx_def)
qed

lemma bidx_valid_right:
  assumes "broadcastable s1 s2" and "valid_index (bshape s1 s2) idx"
  shows "valid_index s2 (bidx s2 idx)"
  using assms
proof (induction s1 arbitrary: s2 idx)
  case Nil
  then show ?case by (auto simp: bidx_def broadcastable_def)
next
  case (Cons a s1)
  from Cons.prems(1) obtain b s2' where s2: "s2 = b # s2'"
    and ab: "a = b \<or> a = 1 \<or> b = 1" and rest: "broadcastable s1 s2'"
    by (auto simp: broadcastable_def list_all2_Cons1)
  from Cons.prems(2) s2 obtain k ks where idx: "idx = k # ks"
    and k: "k < (if a = 1 then b else a)" and ks: "valid_index (bshape s1 s2') ks"
    by (auto simp: bshape_def valid_index_Cons_iff)
  have "valid_index s2' (bidx s2' ks)" using Cons.IH [OF rest ks] .
  then show ?case using idx k ab s2 by (auto simp: bidx_def split: if_splits)
qed

lemma bidx_id: "valid_index s idx \<Longrightarrow> bidx s idx = idx"
proof (induction s arbitrary: idx)
  case Nil
  then show ?case by (simp add: bidx_def)
next
  case (Cons d s)
  then obtain k ks where "idx = k # ks" "k < d" "valid_index s ks"
    by (auto simp: valid_index_Cons_iff)
  then show ?case using Cons.IH [of ks] by (auto simp: bidx_def)
qed

lemma broadcastable_refl [simp]: "broadcastable s s"
  by (simp add: broadcastable_def list_all2_same)

lemma bshape_same [simp]: "bshape s s = s"
  by (induction s) (simp_all add: bshape_def)

text \<open>Adding a tensor of zeros of the same shape changes nothing.\<close>

lemma add_zero_same_shape:
  assumes "wf_tensor x" and "wf_tensor z" and "shape z = shape x"
    and "list_all (\<lambda>v. v = 0) (data z)"
  shows "add_t x z = Inr x"
proof -
  have "entry x (bidx (shape x) idx) + entry z (bidx (shape x) idx) = entry x idx"
    if "valid_index (shape x) idx" for idx
  proof -
    have "entry z idx = 0"
      using entry_all [OF assms(4) assms(2)] that assms(3) by simp
    then show ?thesis using that by (simp add: bidx_id)
  qed
  then have "tabulate (shape x)
               (\<lambda>idx. entry x (bidx (shape x) idx) + entry z (bidx (shape x) idx))
             = tabulate (shape x) (entry x)"
    by (rule tabulate_cong)
  then show ?thesis
    using assms(1,3) by (simp add: add_t_def binop_same_rank tabulate_entry_self)
qed

text \<open>A product with a factor that is zero everywhere is zero everywhere.\<close>

lemma mul_zero_left:
  assumes "wf_tensor g" and "list_all (\<lambda>v. v = 0) (data g)"
    and "length (shape g) = length (shape y)" and "broadcastable (shape g) (shape y)"
  shows "\<exists>z. mul_t g y = Inr z \<and> shape z = bshape (shape g) (shape y) \<and> wf_tensor z
             \<and> list_all (\<lambda>v. v = 0) (data z)"
proof -
  let ?z = "tabulate (bshape (shape g) (shape y))
              (\<lambda>idx. entry g (bidx (shape g) idx) * entry y (bidx (shape y) idx))"
  have m: "mul_t g y = Inr ?z"
    using assms(3,4) by (simp add: mul_t_def binop_same_rank)
  have "list_all (\<lambda>v. v = 0) (data ?z)"
  proof (rule data_tabulate_all)
    fix idx assume "valid_index (bshape (shape g) (shape y)) idx"
    then have "valid_index (shape g) (bidx (shape g) idx)"
      using assms(4) by (simp add: bidx_valid_left)
    then have "entry g (bidx (shape g) idx) = 0"
      using entry_all [OF assms(2) assms(1)] by simp
    then show "entry g (bidx (shape g) idx) * entry y (bidx (shape y) idx) = 0" by simp
  qed
  then show ?thesis using m by simp
qed

lemma unsqueeze1_2d: "shape t = [B, H] \<Longrightarrow> unsqueeze1 t = Inr \<lparr>shape = [B, 1, H], data = data t\<rparr>"
  by (simp add: unsqueeze1_def)

lemma bshape_gate [simp]: "bshape [B, Suc 0, H] [B, T, H] = [B, T, H]"
  by (simp add: bshape_def)

lemma bshape_gate' [simp]: "bshape [B, T, H] [B, Suc 0, H] = [B, T, H]"
  by (auto simp: bshape_def)

lemma broadcastable_gate [simp]:
  "broadcastable [B, Suc 0, H] [B, T, H]" "broadcastable [B, T, H] [B, Suc 0, H]"
  by (simp_all add: broadcastable_def)

lemma gated_zero:
  assumes "shape x = [B, T, H]" and "wf_tensor x" and "shape y = [B, T, H]"
    and "shape g = [B, H]" and "wf_tensor g" and "list_all (\<lambda>v. v = 0) (data g)"
  shows "gated x g y = Inr x"
proof -
  let ?g1 = "\<lparr>shape = [B, 1, H], data = data g\<rparr>"
  have u: "unsqueeze1 g = Inr ?g1" using assms(4) by (rule unsqueeze1_2d)
  have wf: "wf_tensor ?g1" using assms(4,5) by (simp add: wf_tensor_def)
  have "\<exists>z. mul_t ?g1 y = Inr z \<and> shape z = bshape (shape ?g1) (shape y) \<and> wf_tensor z
             \<and> list_all (\<lambda>v. v = 0) (data z)"
    using wf assms(3,6) by (intro mul_zero_left) simp_all
  then obtain z where z: "mul_t ?g1 y = Inr z" "shape z = [B, T, H]" "wf_tensor z"
    "list_all (\<lambda>v. v = 0) (data z)"
    using assms(3) by auto
  have "add_t x z = Inr x"
    using assms(1,2) z by (intro add_zero_same_shape) simp_all
  then show ?thesis using u z(1) by (simp add: gated_def)
qed

lemma modulate_ex:
  assumes "shape t = [B, T, H]" and "shape shift = [B, H]" and "shape scale = [B, H]"
  shows "\<exists>t'. modulate t shift scale = Inr t' \<and> shape t' = [B, T, H] \<and> wf_tensor t'"
proof -
  let ?sc = "map_tensor (\<lambda>v. 1 + v) \<lparr>shape = [B, 1, H], data = data scale\<rparr>"
  let ?sh = "\<lparr>shape = [B, 1, H], data = data shift\<rparr>"
  have s: "shape ?sc = [B, 1, H]" by (simp add: map_tensor_def)
  have "\<exists>m. mul_t t ?sc = Inr m \<and> shape m = [B, T, H]"
    using assms(1) s by (simp add: mul_t_def binop_same_rank)
  then obtain m where m: "mul_t t ?sc = Inr m" "shape m = [B, T, H]" by blast
  have "\<exists>r. add_t m ?sh = Inr r \<and> shape r = [B, T, H] \<and> wf_tensor r"
    using m(2) by (simp add: add_t_def binop_same_rank)
  then obtain r where r: "add_t m ?sh = Inr r" "shape r = [B, T, H]" "wf_tensor r" by blast
  show ?thesis
    using assms(2,3) m r by (simp add: modulate_def unsqueeze1_2d)
qed


subsection \<open>chunk\<close>

lemma chunk1_even:
  assumes "shape t = [B, n * H]" and "0 < n"
  shows "chunk1 n t =
           Inr (map (\<lambda>j. tabulate [B, H] (\<lambda>idx. entry t (idx[1 := idx ! 1 + j * H]))) [0..<n])"
proof (cases "H = 0")
  case True
  then show ?thesis using assms by (simp add: chunk1_def)
next
  case False
  have split: "(n * H + n - Suc 0) div n = H"
  proof -
    have "n * H + n - Suc 0 = H * n + (n - 1)" using assms(2) by (simp add: mult.commute)
    moreover have "(H * n + (n - 1)) div n = H + (n - 1) div n"
      using assms(2) by (intro div_mult_self3) simp
    ultimately show ?thesis using assms(2) by simp
  qed
  have count: "(n * H + H - Suc 0) div H = n"
  proof -
    have "n * H + H - Suc 0 = n * H + (H - 1)" using False by simp
    moreover have "(n * H + (H - 1)) div H = n + (H - 1) div H"
      using False by (intro div_mult_self3) simp
    ultimately show ?thesis using False by simp
  qed
  have size: "min H (n * H - j * H) = H" if "j < n" for j
  proof -
    have "Suc j * H \<le> n * H" using that by (intro mult_le_mono1) simp
    then show ?thesis by simp
  qed
  show ?thesis
    using assms False by (simp add: chunk1_def Let_def split count size cong: map_cong)
qed

lemma chunk_zero:
  assumes "shape t = [B, n * H]" and "wf_tensor t" and "list_all (\<lambda>v. v = 0) (data t)"
    and "j < n"
  shows "list_all (\<lambda>v. v = 0) (data (tabulate [B, H] (\<lambda>idx. entry t (idx[1 := idx ! 1 + j * H]))))"
proof (rule data_tabulate_all)
  fix idx assume "valid_index [B, H] idx"
  then obtain b h where idx: "idx = [b, h]" "b < B" "h < H"
    by (auto simp: valid_index_Cons_iff)
  have "Suc j * H \<le> n * H" using assms(4) by (intro mult_le_mono1) simp
  then have "h + j * H < n * H" using idx(3) by simp
  then have "valid_index (shape t) (idx[1 := idx ! 1 + j * H])"
    using idx assms(1) by simp
  then show "entry t (idx[1 := idx ! 1 + j * H]) = 0"
    using entry_all [OF assms(3) assms(2)] by simp
qed

lemma upt_6: "[0..<6] = [0, 1, 2, 3, 4, 5]"
  by (simp add: upt_unroll)

lemma upt_2: "[0..<2] = [0, 1]"
  by (simp add: upt_unroll)

subsection \<open>permute, bmm, softmax\<close>

lemma permute_2013:
  assumes "shape t = [a, b, c, d]"
  shows "\<exists>t'. permute [2, 0, 1, 3] t = Inr t' \<and> shape t' = [c, a, b, d] \<and> wf_tensor t'"
  using assms by (simp add: permute_def)

lemma permute_1203:
  assumes "shape t = [a, b, c, d]"
  shows "\<exists>t'. permute [1, 2, 0, 3] t = Inr t' \<and> shape t' = [b, c, a, d] \<and> wf_tensor t'"
  using assms by (simp add: permute_def)

lemma transpose_12:
  assumes "shape t = [a, b, c]"
  shows "\<exists>t'. transpose_t 1 2 t = Inr t' \<and> shape t' = [a, c, b] \<and> wf_tensor t'"
  using assms by (simp add: transpose_t_def permute_def upt_unroll)

lemma bmm_ex:
  assumes "shape a = [P, Q, D]" and "shape b = [P, D, K]"
  shows "\<exists>t'. bmm a b = Inr t' \<and> shape t' = [P, Q, K] \<and> wf_tensor t'"
  using assms by (simp add: bmm_def)


lemma nth_concat_const:
  assumes "\<And>r. r < m \<Longrightarrow> length (f r) = n" and "r < m" and "j < n"
  shows "concat (map f [0..<m]) ! (r * n + j) = f r ! j"
  using assms
proof (induction m)
  case 0
  then show ?case by simp
next
  case (Suc m)
  have len: "length (concat (map f [0..<m])) = m * n"
    using Suc.prems(1) by (intro length_concat_map_const) simp
  show ?case
  proof (cases "r < m")
    case True
    have "Suc r * n \<le> m * n" using True by (intro mult_le_mono1) simp
    then have "r * n + j < m * n" using Suc.prems(3) by simp
    then show ?thesis
      using Suc.IH [OF _ True Suc.prems(3)] Suc.prems(1) len by (simp add: nth_append)
  next
    case False
    then have "r = m" using Suc.prems(2) by simp
    then show ?thesis using len by (simp add: nth_append)
  qed
qed

lemma length_row_of:
  assumes "Suc r * K \<le> length xs"
  shows "length (row_of K r xs) = K"
  using assms by (simp add: row_of_def)

lemma softmax_row_scores:
  "softmax_row (map Score xs)
     = Some (map (\<lambda>s. exp_score s / sum_list (map exp_score (map Score xs))) (map Score xs))"
  by (cases xs) (simp_all add: softmax_row_def)

lemma sum_list_exp_pos: "xs \<noteq> [] \<Longrightarrow> 0 < sum_list (map exp (xs :: real list))"
proof (induction xs)
  case Nil
  then show ?case by simp
next
  case (Cons a xs)
  have "0 \<le> sum_list (map exp xs)" by (intro sum_list_nonneg) auto
  moreover have "0 < exp a" by simp
  ultimately have "0 < exp a + sum_list (map exp xs)" by (rule add_pos_nonneg [rotated])
  then show ?case by simp
qed

lemma softmax_row_sum:
  assumes "xs \<noteq> []"
  shows "sum_list (the (softmax_row (map Score xs))) = 1"
proof -
  let ?tot = "sum_list (map exp xs)"
  have pos: "0 < ?tot"
    using assms by (rule sum_list_exp_pos)
  have "sum_list (map (\<lambda>x. exp x * inverse ?tot) xs) = ?tot * inverse ?tot"
    by (simp add: sum_list_mult_const)
  then have "sum_list (map (\<lambda>x. exp x / ?tot) xs) = 1"
    using pos by (simp add: divide_inverse)
  then show ?thesis
    by (simp add: softmax_row_scores o_def)
qed

lemma row_of_map: "row_of K r (map f xs) = map f (row_of K r xs)"
  by (simp add: row_of_def take_map drop_map)

lemma softmax_unmasked:
  assumes "shape t = [P, Q, K]" and "wf_tensor t"
  shows "\<exists>w. softmax (map_tensor Score t) = Inr w \<and> shape w = [P, Q, K] \<and> wf_tensor w
           \<and> (\<forall>p<P. \<forall>i<Q. 0 < K \<longrightarrow> sum_upto K (\<lambda>j. entry w [p, i, j]) = 1)"
proof -
  let ?row = "\<lambda>r. softmax_row (row_of K r (map Score (data t)))"
  let ?f = "\<lambda>r. the (?row r)"
  let ?w = "\<lparr>shape = [P, Q, K], data = concat (map ?f [0..<P * Q])\<rparr>"
  have some: "\<not> list_ex (\<lambda>r. r = None) (map ?row [0..<P * Q])"
    by (auto simp: list_ex_iff row_of_map softmax_row_scores)
  have sm: "softmax (map_tensor Score t) = Inr ?w"
    using assms(1) some
    by (simp add: softmax_def map_tensor_def Let_def o_def)
  have lent: "length (data t) = P * Q * K"
    using assms by (simp add: wf_tensor_def)
  have rowlen: "length (row_of K r (data t)) = K" if "r < P * Q" for r
  proof -
    have "Suc r * K \<le> (P * Q) * K" using that by (intro mult_le_mono1) simp
    then show ?thesis using lent by (intro length_row_of) simp
  qed
  have flen: "length (?f r) = K" if "r < P * Q" for r
    using rowlen [OF that] by (simp add: row_of_map softmax_row_scores)
  have wf: "wf_tensor ?w"
    using length_concat_map_const [of "P * Q" ?f K] flen by (simp add: wf_tensor_def)
  have sums: "sum_upto K (\<lambda>j. entry ?w [p, i, j]) = 1" if "p < P" "i < Q" "0 < K" for p i
  proof -
    have "Suc p * Q \<le> P * Q" using that(1) by (intro mult_le_mono1) simp
    then have r: "p * Q + i < P * Q" using that(2) by simp
    have e: "entry ?w [p, i, j] = ?f (p * Q + i) ! j" if "j < K" for j
    proof -
      have "entry ?w [p, i, j] = concat (map ?f [0..<P * Q]) ! ((p * Q + i) * K + j)"
        by (simp add: entry_def algebra_simps)
      also have "\<dots> = ?f (p * Q + i) ! j"
        using flen r that by (intro nth_concat_const) simp_all
      finally show ?thesis .
    qed
    have "sum_upto K (\<lambda>j. entry ?w [p, i, j]) = sum_list (map (\<lambda>j. ?f (p * Q + i) ! j) [0..<K])"
      unfolding sum_upto_def by (intro arg_cong [where f = sum_list] map_cong) (simp_all add: e)
    also have "\<dots> = sum_list (?f (p * Q + i))"
      using flen [OF r] map_nth [of "?f (p * Q + i)"] by simp
    also have "\<dots> = 1"
    proof -
      have "row_of K (p * Q + i) (data t) \<noteq> []"
        using rowlen [OF r] that(3) by auto
      then show ?thesis by (simp add: row_of_map softmax_row_sum)
    qed
    finally show ?thesis .
  qed
  show ?thesis using sm wf sums by auto
qed


subsection \<open>Attention\<close>

lemma view_tensor_wf:
  assumes "wf_tensor t" and "numel s = numel (shape t)"
  shows "wf_tensor \<lparr>shape = s, data = data t\<rparr>"
  using assms by (simp add: wf_tensor_def)

lemma project_heads_ex:
  assumes "shape t = [B, T, in_features l]"
    and "out_features l = num_heads a * div_dimension a"
    and "0 < B" and "0 < num_heads a" and "0 < div_dimension a"
  shows "\<exists>t'. project_heads a l B t = Inr t'
           \<and> shape t' = [B * num_heads a, T, div_dimension a] \<and> wf_tensor t'"
proof -
  let ?N = "num_heads a" and ?D = "div_dimension a"
  obtain t1 where t1: "linear_forward l t = Inr t1" "shape t1 = [B, T, ?N * ?D]" "wf_tensor t1"
    using linear_forward_ex [of t "[B, T]" l] assms(1,2) by auto
  let ?t2 = "\<lparr>shape = [B, T, ?N, ?D], data = data t1\<rparr>"
  have v1: "view [Some B, None, Some ?N, Some ?D] t1 = Inr ?t2"
    using view_infer [of t1 T "[B]" "[?N, ?D]"] t1(2) assms(3-5) by (simp add: ac_simps)
  obtain t3 where t3: "permute [2, 0, 1, 3] ?t2 = Inr t3" "shape t3 = [?N, B, T, ?D]"
    "wf_tensor t3"
    using permute_2013 [of ?t2 B T ?N ?D] by auto
  let ?t4 = "\<lparr>shape = [B * ?N, T, ?D], data = data t3\<rparr>"
  have v2: "view [Some (B * ?N), None, Some ?D] t3 = Inr ?t4"
    using view_infer [of t3 T "[B * ?N]" "[?D]"] t3(2) assms(3-5) by (simp add: ac_simps)
  have wf: "wf_tensor ?t4"
    using t3(2,3) by (intro view_tensor_wf) (simp_all add: ac_simps)
  show ?thesis
    using t1(1) v1 t3(1) v2 wf by (simp add: project_heads_def)
qed

lemma attend_ex:
  assumes "shape q = [B * num_heads a, T, div_dimension a]"
    and "shape k = [B * num_heads a, T, div_dimension a]"
    and "shape v = [B * num_heads a, T, div_dimension a]"
    and "0 < B" and "0 < num_heads a" and "0 < div_dimension a"
  shows "\<exists>context w. attend a B q k v None = Inr (context, w)
           \<and> shape context = [B, T, num_heads a * div_dimension a] \<and> wf_tensor context
           \<and> shape w = [B * num_heads a, T, T] \<and> wf_tensor w
           \<and> (\<forall>p<B * num_heads a. \<forall>i<T. sum_upto T (\<lambda>j. entry w [p, i, j]) = 1)"
proof -
  let ?N = "num_heads a" and ?D = "div_dimension a"
  obtain kT where kT: "transpose_t 1 2 k = Inr kT" "shape kT = [B * ?N, ?D, T]"
    using transpose_12 [OF assms(2)] by auto
  obtain qk where qk: "bmm q kT = Inr qk" "shape qk = [B * ?N, T, T]" "wf_tensor qk"
    using bmm_ex [OF assms(1) kT(2)] by auto
  let ?sc = "map_tensor (\<lambda>s. s / sqrt (real ?D)) qk"
  have sc: "shape ?sc = [B * ?N, T, T]" "wf_tensor ?sc"
    using qk(2,3) by (simp_all add: map_tensor_def wf_tensor_def)
  obtain w where w: "softmax (map_tensor Score ?sc) = Inr w" "shape w = [B * ?N, T, T]"
    "wf_tensor w"
    "\<forall>p<B * ?N. \<forall>i<T. 0 < T \<longrightarrow> sum_upto T (\<lambda>j. entry w [p, i, j]) = 1"
    using softmax_unmasked [OF sc] by auto
  obtain c0 where c0: "bmm w v = Inr c0" "shape c0 = [B * ?N, T, ?D]" "wf_tensor c0"
    using bmm_ex [OF w(2) assms(3)] by auto
  let ?c1 = "\<lparr>shape = [?N, B, T, ?D], data = data c0\<rparr>"
  have v1: "view [Some ?N, Some B, None, Some ?D] c0 = Inr ?c1"
    using view_infer [of c0 T "[?N, B]" "[?D]"] c0(2) assms(4-6) by (simp add: ac_simps)
  obtain c2 where c2: "permute [1, 2, 0, 3] ?c1 = Inr c2" "shape c2 = [B, T, ?N, ?D]"
    "wf_tensor c2"
    using permute_1203 [of ?c1 ?N B T ?D] by auto
  let ?c3 = "\<lparr>shape = [B, T, ?N * ?D], data = data c2\<rparr>"
  have v2: "view [Some B, None, Some (?N * ?D)] c2 = Inr ?c3"
    using view_infer [of c2 T "[B]" "[?N * ?D]"] c2(2) assms(4-6) by (simp add: ac_simps)
  have wf: "wf_tensor ?c3"
    using c2(2,3) by (intro view_tensor_wf) (simp_all add: ac_simps)
  have sums: "\<forall>p<B * ?N. \<forall>i<T. sum_upto T (\<lambda>j. entry w [p, i, j]) = 1"
    using w(4) by auto
  have "attend a B q k v None = Inr (?c3, w)"
    using kT(1) qk(1) w(1) c0(1) v1 c2(1) v2
    by (simp add: attend_def apply_mask_def)
  then show ?thesis using wf w(2,3) sums by simp
qed

lemma Attention_forward_ex:
  assumes "shape query = [B, T, H]" and "shape key = [B, T, H]" and "shape value = [B, T, H]"
    and "in_features (query_projection a) = H"
    and "out_features (query_projection a) = num_heads a * div_dimension a"
    and "H = num_heads a * div_dimension a"
    and "0 < B" and "0 < H"
  shows "\<exists>context w. Attention_forward a query key value None = Inr (context, w)
           \<and> shape context = [B, T, H] \<and> wf_tensor context
           \<and> shape w = [B * num_heads a, T, T] \<and> wf_tensor w
           \<and> (\<forall>p<B * num_heads a. \<forall>i<T. sum_upto T (\<lambda>j. entry w [p, i, j]) = 1)"
proof -
  have N: "0 < num_heads a" and D: "0 < div_dimension a"
    using assms(6,8) by auto
  note ph = project_heads_ex [OF _ assms(5) assms(7) N D]
  obtain q where q: "project_heads a (query_projection a) B query = Inr q"
    "shape q = [B * num_heads a, T, div_dimension a]"
    using ph [of query T] assms(1,4) by auto
  obtain k where k: "project_heads a (query_projection a) B key = Inr k"
    "shape k = [B * num_heads a, T, div_dimension a]"
    using ph [of key T] assms(2,4) by auto
  obtain v where v: "project_heads a (query_projection a) B value = Inr v"
    "shape v = [B * num_heads a, T, div_dimension a]"
    using ph [of "value" T] assms(3,4) by auto
  have "Attention_forward a query key value None = attend a B q k v None"
    using assms(3) q(1) k(1) v(1) by (simp add: Attention_forward_def)
  then show ?thesis
    using attend_ex [OF q(2) k(2) v(2) assms(7) N D] assms(6) by simp
qed

section \<open>The claims\<close>

subsection \<open>Construction of Attention\<close>

text \<open>
  Claim C9. Constructing \<^verbatim>\<open>Attention\<close> succeeds when the head count is not zero and
  divides the attention dimension. When the head count is not zero and does not divide
  it, the assertion fails, in \<^verbatim>\<open>Attention\<close> and so in \<^verbatim>\<open>DiffusionTransformer\<close>, which
  constructs one; a zero head count makes \<^verbatim>\<open>%\<close> raise. \<^verbatim>\<open>DiffusionTransformer\<close> is
  constructed without error when, besides, the perceptron ratio is not negative and the
  dropout rate is a probability. Sizes are natural numbers.
\<close>

theorem attention_construction:
  "(heads \<noteq> 0 \<and> adim mod heads = 0 \<longrightarrow> (\<exists>a. Attention_init adim heads g = Inr a))
   \<and> (heads \<noteq> 0 \<and> adim mod heads \<noteq> 0 \<longrightarrow>
        Attention_init adim heads g = Inl AssertionError
        \<and> DiffusionTransformer_init adim heads hidden ratio aff e p b pln g = Inl AssertionError)
   \<and> (heads = 0 \<longrightarrow>
        Attention_init adim heads g = Inl ZeroDivisionError
        \<and> DiffusionTransformer_init adim heads hidden ratio aff e p b pln g = Inl ZeroDivisionError)
   \<and> (heads \<noteq> 0 \<and> adim mod heads = 0 \<and> 0 \<le> ratio \<and> 0 \<le> p \<and> p \<le> 1 \<longrightarrow>
        (\<exists>m. DiffusionTransformer_init adim heads hidden ratio aff e p b pln g = Inr m))"
proof -
  have "0 \<le> py_int (real hidden * ratio)" if "0 \<le> ratio"
    using that by (simp add: py_int_def)
  then show ?thesis
    by (auto simp: Attention_init_def DiffusionTransformer_init_def Let_def
        AttentionPerceptron_init_def nn_Dropout_def to_2tuple_def n_tuples_def)
qed

theorem attention_construction_witness:
  "(\<exists>a. Attention_init 4 2 (\<lambda>k. 0) = Inr a)
   \<and> Attention_init 5 2 (\<lambda>k. 0) = Inl AssertionError
   \<and> DiffusionTransformer_init 5 2 4 1 False (1 / 1000000) 0 True True (\<lambda>k. 0) = Inl AssertionError
   \<and> Attention_init 4 0 (\<lambda>k. 0) = Inl ZeroDivisionError
   \<and> (\<exists>m. DiffusionTransformer_init 4 2 4 1 False (1 / 1000000) 0 True True (\<lambda>k. 0) = Inr m)"
  using attention_construction [of 2 4 "\<lambda>k. 0" 4 1 False "1 / 1000000" 0 True True]
    attention_construction [of 2 5 "\<lambda>k. 0" 4 1 False "1 / 1000000" 0 True True]
    attention_construction [of 0 4 "\<lambda>k. 0" 4 1 False "1 / 1000000" 0 True True]
  by simp

subsection \<open>LabelEmbedder\<close>

lemma length_table_init:
  "length (embedding_table (LabelEmbedder_init n h p g)) = n + (if p > 0 then 1 else 0)"
  by (simp add: LabelEmbedder_init_def)

lemma token_dropper_set:
  "i \<in> set (token_dropper m u labels) \<Longrightarrow> i = int (num_classes m) \<or> i \<in> set labels"
  by (auto simp: token_dropper_def)

text \<open>
  Claim C10. For a \<^verbatim>\<open>LabelEmbedder\<close> constructed with a positive dropout probability and
  labels that all lie in \<open>[0, num_classes)\<close>, every index that \<^verbatim>\<open>forward\<close> looks up,
  a label or the sentinel \<open>num_classes\<close>, lies in \<open>[0, num_classes]\<close> and below the
  number of rows of the table, which is \<open>num_classes + 1\<close>; the lookup returns.
\<close>

theorem label_lookup_in_range:
  assumes "0 < p" and "\<forall>l\<in>set labels. 0 \<le> l \<and> l < int n"
  shows "(\<forall>i\<in>set (LabelEmbedder_indices (LabelEmbedder_init n h p g) u labels).
            0 \<le> i \<and> i \<le> int n
            \<and> i < int (length (embedding_table (LabelEmbedder_init n h p g))))
         \<and> length (embedding_table (LabelEmbedder_init n h p g)) = n + 1
         \<and> (\<exists>t. LabelEmbedder_forward (LabelEmbedder_init n h p g) u labels = Inr t)"
proof -
  let ?m = "LabelEmbedder_init n h p g"
  have nc: "num_classes ?m = n" and dp: "dropout_prob ?m = p"
    by (simp_all add: LabelEmbedder_init_def)
  have len: "length (embedding_table ?m) = n + 1"
    using assms(1) by (simp add: length_table_init)
  have rng: "0 \<le> i \<and> i \<le> int n" if "i \<in> set (LabelEmbedder_indices ?m u labels)" for i
  proof -
    from that assms(1) have "i \<in> set (token_dropper ?m u labels)"
      by (simp add: LabelEmbedder_indices_def dp)
    then have "i = int n \<or> i \<in> set labels"
      using token_dropper_set [of i ?m u labels] by (simp add: nc)
    then show ?thesis using assms(2) by auto
  qed
  have all: "list_all (\<lambda>l. 0 \<le> l \<and> l < int (length (embedding_table ?m)))
               (LabelEmbedder_indices ?m u labels)"
    unfolding list_all_iff using rng len by fastforce
  have "\<exists>t. LabelEmbedder_forward ?m u labels = Inr t"
    unfolding LabelEmbedder_forward_def embedding_lookup_def using all by simp
  then show ?thesis using rng len by fastforce
qed

theorem label_lookup_in_range_witness:
  "(0::real) < 1 / 2 \<and> list_all (\<lambda>l. 0 \<le> l \<and> l < int 2) [0, 1]
   \<and> LabelEmbedder_indices (LabelEmbedder_init 2 1 (1 / 2) (\<lambda>k. 0))
         (\<lambda>i. if i = 0 then 0 else 1) [0, 1] = [2, 1]
   \<and> list_all (\<lambda>i. 0 \<le> i \<and> i \<le> int 2
                    \<and> i < int (length (embedding_table (LabelEmbedder_init 2 1 (1 / 2) (\<lambda>k. 0)))))
        (LabelEmbedder_indices (LabelEmbedder_init 2 1 (1 / 2) (\<lambda>k. 0))
           (\<lambda>i. if i = 0 then 0 else 1) [0, 1])
   \<and> length (embedding_table (LabelEmbedder_init 2 1 (1 / 2) (\<lambda>k. 0))) = 3
   \<and> (\<exists>t. LabelEmbedder_forward (LabelEmbedder_init 2 1 (1 / 2) (\<lambda>k. 0))
              (\<lambda>i. if i = 0 then 0 else 1) [0, 1] = Inr t)"
proof -
  have h1: "(0::real) < 1 / 2" by simp
  have h2: "\<forall>l\<in>set [0, 1 :: int]. 0 \<le> l \<and> l < int 2" by simp
  have e: "LabelEmbedder_indices (LabelEmbedder_init 2 1 (1 / 2) (\<lambda>k. 0))
             (\<lambda>i. if i = 0 then 0 else 1) [0, 1] = [2, 1]"
    by (simp add: LabelEmbedder_indices_def LabelEmbedder_init_def token_dropper_def
        upt_rec [of 0] upt_rec [of "Suc 0"])
  note th = label_lookup_in_range [OF h1 h2, of 1 "\<lambda>k. 0" "\<lambda>i. if i = 0 then 0 else 1"]
  from th have a: "list_all (\<lambda>i. 0 \<le> i \<and> i \<le> int 2
                    \<and> i < int (length (embedding_table (LabelEmbedder_init 2 1 (1 / 2) (\<lambda>k. 0)))))
        (LabelEmbedder_indices (LabelEmbedder_init 2 1 (1 / 2) (\<lambda>k. 0))
           (\<lambda>i. if i = 0 then 0 else 1) [0, 1])"
    unfolding list_all_iff by blast
  from th have b: "length (embedding_table (LabelEmbedder_init 2 1 (1 / 2) (\<lambda>k. 0))) = 3"
    by simp
  from th have c: "\<exists>t. LabelEmbedder_forward (LabelEmbedder_init 2 1 (1 / 2) (\<lambda>k. 0))
              (\<lambda>i. if i = 0 then 0 else 1) [0, 1] = Inr t"
    by blast
  show ?thesis using h1 e a b c by simp
qed

subsection \<open>The projections of Attention\<close>

lemma project_heads_ignores:
  "project_heads (a\<lparr>key_projection := kp, value_projection := vp\<rparr>) l b t
     = project_heads a l b t"
  by (simp add: project_heads_def)

lemma apply_mask_ignores:
  "apply_mask (a\<lparr>key_projection := kp, value_projection := vp\<rparr>) s m = apply_mask a s m"
  by (simp add: apply_mask_def cong: option.case_cong)

lemma attend_ignores:
  "attend (a\<lparr>key_projection := kp, value_projection := vp\<rparr>) b q k v m = attend a b q k v m"
  by (simp add: attend_def apply_mask_ignores)

lemma attention_ignores_key_value_projection:
  "Attention_forward (a\<lparr>key_projection := kp, value_projection := vp\<rparr>) q k v m
     = Attention_forward a q k v m"
  by (simp add: Attention_forward_def project_heads_ignores attend_ignores cong: list.case_cong)

lemma ex1_project_q:
  "project_heads ex1_attention (ex1_linear 1) 1 ex1_x = Inr ex1_x"
  by (simp add: project_heads_def ex1_attention_def ex1_linear_def ex1_x_def tensor_eval)

lemma ex1_project_v:
  "project_heads ex1_attention (ex1_linear 2) 1 ex1_x = Inr ex1_spec_context"
  by (simp add: project_heads_def ex1_attention_def ex1_linear_def ex1_x_def
      ex1_spec_context_def tensor_eval)

lemma ex1_attend_q:
  "attend ex1_attention 1 ex1_x ex1_x ex1_x None = Inr (ex1_x, ex1_x)"
  by (simp add: attend_def apply_mask_def softmax_def softmax_row_def ex1_attention_def
      ex1_x_def tensor_eval)

lemma ex1_attend_v:
  "attend ex1_attention 1 ex1_x ex1_x ex1_spec_context None = Inr (ex1_spec_context, ex1_x)"
  by (simp add: attend_def apply_mask_def softmax_def softmax_row_def ex1_attention_def
      ex1_x_def ex1_spec_context_def tensor_eval)

text \<open>
  Claim C1 says that query, key and value are projected by their own layers. The source
  sends all three through \<open>query_projection\<close>; \<open>key_projection\<close> and
  \<open>value_projection\<close> are constructed and never applied. With one token, dimension 1,
  one head, query and key weights 1 and value weight 2, the context of the input 1 is 1,
  where separate projections give 2.
\<close>

theorem attention_projections_shared:
  "Attention_forward ex1_attention ex1_x ex1_x ex1_x None = Inr (ex1_x, ex1_x)
   \<and> Attention_forward_spec ex1_attention ex1_x ex1_x ex1_x None = Inr (ex1_spec_context, ex1_x)
   \<and> ex1_x \<noteq> ex1_spec_context"
proof -
  have s: "shape ex1_x = [1, 1, 1]" by (simp add: ex1_x_def)
  have q: "query_projection ex1_attention = ex1_linear 1"
    and k: "key_projection ex1_attention = ex1_linear 1"
    and v: "value_projection ex1_attention = ex1_linear 2"
    by (simp_all add: ex1_attention_def)
  have a: "Attention_forward ex1_attention ex1_x ex1_x ex1_x None = Inr (ex1_x, ex1_x)"
    by (simp only: Attention_forward_def s list.case q ex1_project_q bnd.simps ex1_attend_q)
  have b: "Attention_forward_spec ex1_attention ex1_x ex1_x ex1_x None
             = Inr (ex1_spec_context, ex1_x)"
    by (simp only: Attention_forward_spec_def s list.case q k v ex1_project_q ex1_project_v
        bnd.simps ex1_attend_v)
  have c: "ex1_x \<noteq> ex1_spec_context"
    by (simp add: ex1_x_def ex1_spec_context_def)
  show ?thesis using a b c by simp
qed

subsection \<open>TimestepEmbedder\<close>

lemma time_stepper_one:
  "time_stepper ts 1 10000 = Inr \<lparr>shape = [length ts, 0], data = []\<rparr>"
  by (simp add: time_stepper_def cat_last_def first_column_def map_tensor_def tabulate_def)

text \<open>From frequency size 2 on, the embedder returns shape \<open>[B, H]\<close>.\<close>

lemma cat_last_2d:
  assumes "shape a = [B, Ka]" and "shape b = [B, Kb]"
  shows "\<exists>t. cat_last a b = Inr t \<and> shape t = [B, Ka + Kb]"
  using assms by (simp add: cat_last_def)

lemma time_stepper_shape:
  assumes "2 \<le> F"
  shows "\<exists>t. time_stepper ts F 10000 = Inr t \<and> shape t = [length ts, F]"
proof -
  let ?half = "F div 2"
  let ?freq = "map (\<lambda>i. exp (- ln 10000 * real i / real ?half)) [0..<?half]"
  let ?args = "tabulate [length ts, ?half] (\<lambda>idx. ts ! (idx ! 0) * ?freq ! (idx ! 1))"
  have h: "1 \<le> ?half" using assms by simp
  obtain e where e: "cat_last (map_tensor cos ?args) (map_tensor sin ?args) = Inr e"
    "shape e = [length ts, ?half + ?half]"
    using cat_last_2d [of "map_tensor cos ?args" "length ts" ?half "map_tensor sin ?args" ?half]
    by auto
  show ?thesis
  proof (cases "F mod 2 = 1")
    case False
    then have "?half + ?half = F" by presburger
    then show ?thesis using e False by (simp add: time_stepper_def Let_def)
  next
    case True
    have m: "min 1 (?half + ?half) = 1" using h by simp
    have fc: "first_column e = Inr (tabulate [length ts, 1] (entry e))"
      using e(2) m by (simp add: first_column_def)
    obtain p where p: "cat_last e (map_tensor (\<lambda>v. 0) (tabulate [length ts, 1] (entry e))) = Inr p"
      "shape p = [length ts, ?half + ?half + 1]"
      using cat_last_2d [OF e(2), of "map_tensor (\<lambda>v. 0) (tabulate [length ts, 1] (entry e))" 1]
      by auto
    have "?half + ?half + 1 = F" using True by presburger
    then show ?thesis using e(1) fc p True by (simp add: time_stepper_def Let_def)
  qed
qed

lemma timestep_embedder_shape:
  assumes "2 \<le> F"
  shows "\<exists>t. TimestepEmbedder_forward (TimestepEmbedder_init H F b g) ts = Inr t
           \<and> shape t = [length ts, H]"
proof -
  let ?m = "TimestepEmbedder_init H F b g"
  have f: "frequency_embedding_size ?m = F" "in_features (perceptron_0 ?m) = F"
    "out_features (perceptron_0 ?m) = H" "in_features (perceptron_2 ?m) = H"
    "out_features (perceptron_2 ?m) = H"
    by (simp_all add: TimestepEmbedder_init_def nn_Linear_def)
  obtain t where t: "time_stepper ts F 10000 = Inr t" "shape t = [length ts, F]"
    using time_stepper_shape [OF assms] by blast
  obtain h where h: "linear_forward (perceptron_0 ?m) t = Inr h" "shape h = [length ts, H]"
    using linear_forward_ex [of t "[length ts]" "perceptron_0 ?m"] t(2) f by auto
  obtain r where r: "linear_forward (perceptron_2 ?m) (map_tensor silu h) = Inr r"
    "shape r = [length ts, H]"
    using linear_forward_ex [of "map_tensor silu h" "[length ts]" "perceptron_2 ?m"] h(2) f
    by auto
  show ?thesis
    using t(1) h(1) r by (simp add: TimestepEmbedder_forward_def f(1))
qed

text \<open>
  Claim C5 says that the embedder returns shape \<open>[B, H]\<close> for every positive frequency
  size. With size 1 there is no frequency, the zero column is taken from an embedding
  without columns, and the first linear layer, which expects one feature, receives none
  and raises.
\<close>

theorem timestep_embedder_size_one:
  "time_stepper ts 1 10000 = Inr \<lparr>shape = [length ts, 0], data = []\<rparr>
   \<and> TimestepEmbedder_forward (TimestepEmbedder_init H 1 b g) ts = Inl RuntimeError"
proof -
  have f: "frequency_embedding_size (TimestepEmbedder_init H 1 b g) = 1"
    and i: "in_features (perceptron_0 (TimestepEmbedder_init H 1 b g)) = 1"
    by (simp_all add: TimestepEmbedder_init_def nn_Linear_def)
  have "linear_forward (perceptron_0 (TimestepEmbedder_init H 1 b g))
          \<lparr>shape = [length ts, 0], data = []\<rparr> = Inl RuntimeError"
    using i by (simp add: linear_forward_def)
  then show ?thesis
    by (simp only: TimestepEmbedder_forward_def f time_stepper_one bnd.simps simp_thms)
qed

subsection \<open>Initial parameters\<close>

lemma ex4_construct:
  "DiffusionTransformer_init 1 1 1 1 False (1 / 1000000) 0 True True ex4_rng = Inr ex4_dit"
  by (simp add: DiffusionTransformer_init_def Attention_init_def
      AttentionPerceptron_init_def nn_Dropout_def to_2tuple_def n_tuples_def py_int_def nn_Linear_def
      nn_LayerNorm_def linear_draws_def rng_skip_def ex4_rng_def ex4_dit_def ex4_linear_def
      upt_unroll Let_def eval_nat_numeral)

lemma ex4_linear_not_zero: "0 < n \<Longrightarrow> \<not> linear_zero (ex4_linear n)"
  by (cases n) (simp_all add: linear_zero_def ex4_linear_def)

lemma ex4_final:
  "AdaptiveLN (FinalLayer_init 1 1 1 ex4_rng) = ex4_linear 2"
  "linear_out (FinalLayer_init 1 1 1 ex4_rng) = ex4_linear 1"
  by (simp_all add: FinalLayer_init_def nn_Linear_def ex4_rng_def ex4_linear_def rng_skip_def
      upt_unroll eval_nat_numeral)

text \<open>
  Claim C4 says that the constructors leave the adaLN projection and the output layer
  of \<^verbatim>\<open>FinalLayer\<close> at zero. The constructors only build the \<^verbatim>\<open>nn.Linear\<close> layers, whose
  parameters are then the draws of the default initialisation: with draws that are all
  one half, none of the three layers is zero after construction.
\<close>

theorem adaLN_not_zero_at_construction:
  "DiffusionTransformer_init 1 1 1 1 False (1 / 1000000) 0 True True ex4_rng = Inr ex4_dit
   \<and> \<not> linear_zero (adaptiveLN ex4_dit)
   \<and> \<not> linear_zero (AdaptiveLN (FinalLayer_init 1 1 1 ex4_rng))
   \<and> \<not> linear_zero (linear_out (FinalLayer_init 1 1 1 ex4_rng))"
proof -
  have "adaptiveLN ex4_dit = ex4_linear 6" by (simp add: ex4_dit_def)
  then show ?thesis
    using ex4_construct ex4_final ex4_linear_not_zero [of 6] ex4_linear_not_zero [of 2]
      ex4_linear_not_zero [of 1]
    by simp
qed

lemma linear_zero_init:
  "linear_zero (init_constant_bias 0 (init_constant_weight 0 l))"
  by (cases "bias l") (simp_all add: linear_zero_def init_constant_bias_def
      init_constant_weight_def list_all_iff)

lemma weight_zero_nn_Linear:
  "list_all (list_all (\<lambda>v. v = 0)) (weight (nn_Linear i out b g))
     \<longleftrightarrow> (\<forall>n<out * i. g n = 0)"
proof
  assume l: "list_all (list_all (\<lambda>v. v = 0)) (weight (nn_Linear i out b g))"
  then have z: "g (j * i + k) = 0" if "j < out" "k < i" for j k
    using that by (auto simp: nn_Linear_def list_all_iff)
  show "\<forall>n<out * i. g n = 0"
  proof (intro allI impI)
    fix n assume n: "n < out * i"
    then have i: "0 < i" by (cases i) auto
    have "n div i < out" using n i by (simp add: less_mult_imp_div_less)
    moreover have "n mod i < i" using i by simp
    ultimately have "g (n div i * i + n mod i) = 0" by (rule z)
    then show "g n = 0" by simp
  qed
next
  assume a: "\<forall>n<out * i. g n = 0"
  have "g (j * i + k) = 0" if "j < out" "k < i" for j k
  proof -
    have "Suc j * i \<le> out * i" using that(1) by (intro mult_le_mono1) simp
    then have "j * i + k < out * i" using that(2) by simp
    then show ?thesis using a by simp
  qed
  then show "list_all (list_all (\<lambda>v. v = 0)) (weight (nn_Linear i out b g))"
    by (auto simp: nn_Linear_def list_all_iff)
qed

lemma linear_zero_nn_Linear:
  "linear_zero (nn_Linear i out b g) \<longleftrightarrow> (\<forall>n<linear_draws i out b. g n = 0)"
proof (cases b)
  case False
  then have "bias (nn_Linear i out b g) = None" by (simp add: nn_Linear_def)
  then show ?thesis
    using False weight_zero_nn_Linear [of i out b g] by (simp add: linear_zero_def linear_draws_def)
next
  case True
  then have bz: "bias (nn_Linear i out b g) = Some (map (\<lambda>j. g (out * i + j)) [0..<out])"
    by (simp add: nn_Linear_def)
  have "(\<forall>n<out * i + out. g n = 0)
          \<longleftrightarrow> (\<forall>n<out * i. g n = 0) \<and> (\<forall>j<out. g (out * i + j) = 0)"
  proof (intro iffI conjI allI impI)
    fix n assume a: "(\<forall>n<out * i. g n = 0) \<and> (\<forall>j<out. g (out * i + j) = 0)"
      and n: "n < out * i + out"
    show "g n = 0"
    proof (cases "n < out * i")
      case True
      then show ?thesis using a by simp
    next
      case False
      then have "n - out * i < out" "n = out * i + (n - out * i)" using n by simp_all
      then show ?thesis using a by metis
    qed
  qed simp_all
  moreover have "(case bias (nn_Linear i out b g) of None \<Rightarrow> True
                   | Some c \<Rightarrow> list_all (\<lambda>v. v = 0) c)
                  \<longleftrightarrow> (\<forall>j<out. g (out * i + j) = 0)"
    unfolding bz by (auto simp: list_all_iff)
  moreover have "linear_draws i out b = out * i + out"
    using True by (simp add: linear_draws_def)
  ultimately show ?thesis
    unfolding linear_zero_def weight_zero_nn_Linear by simp
qed

lemma FinalLayer_init_layers:
  "linear_out (FinalLayer_init hidden ps oc g) = nn_Linear hidden (ps * ps * oc) True g"
  "AdaptiveLN (FinalLayer_init hidden ps oc g)
     = nn_Linear hidden (2 * hidden) True
         (rng_skip (linear_draws hidden (ps * ps * oc) True) g)"
  by (simp_all add: FinalLayer_init_def)

lemma DiffusionTransformer_init_adaLN:
  assumes "DiffusionTransformer_init ad heads hidden ratio aff e p b pln g = Inr m"
  shows "adaptiveLN m =
           nn_Linear hidden (6 * hidden) True
             (rng_skip (3 * linear_draws ad (heads * (ad div heads)) True
                         + linear_draws hidden (perceptron_hidden_dim m) b
                         + linear_draws (perceptron_hidden_dim m) hidden b) g)"
  using assms
  by (auto simp: DiffusionTransformer_init_def Let_def split: if_splits elim!: bnd_InrE)

text \<open>
  Claim C4, amended. After construction the adaLN projection of a block, and the output
  layer and the adaLN projection of \<^verbatim>\<open>FinalLayer\<close>, are exactly the layers that
  \<^verbatim>\<open>nn.Linear\<close> builds from the draws of its default initialisation (\<open>K\<close> draws of the
  block's generator are used by the layers constructed before its adaLN projection, and
  \<^verbatim>\<open>FinalLayer\<close> constructs its output layer of width \<open>P\<close> first). Each of the three
  layers is therefore zero at construction exactly when every one of its own draws is
  zero. After the step that the driver applies to a constructed model
  (\<^verbatim>\<open>nn.init.constant_(..., 0)\<close>, lines 445-446 and 457-460), the weight and bias of all
  three layers are zero, whatever was drawn.
\<close>

theorem parameters_zero_only_after_driver_init:
  assumes "DiffusionTransformer_init ad heads hidden ratio aff e p b pln g = Inr m"
    and "K = 3 * linear_draws ad (heads * (ad div heads)) True
             + linear_draws hidden (perceptron_hidden_dim m) b
             + linear_draws (perceptron_hidden_dim m) hidden b"
    and "P = ps * ps * oc"
  shows "adaptiveLN m = nn_Linear hidden (6 * hidden) True (rng_skip K g)
         \<and> linear_out (FinalLayer_init hidden ps oc f) = nn_Linear hidden P True f
         \<and> AdaptiveLN (FinalLayer_init hidden ps oc f)
             = nn_Linear hidden (2 * hidden) True (rng_skip (linear_draws hidden P True) f)
         \<and> (linear_zero (adaptiveLN m)
              \<longleftrightarrow> (\<forall>n<linear_draws hidden (6 * hidden) True. g (K + n) = 0))
         \<and> (linear_zero (linear_out (FinalLayer_init hidden ps oc f))
              \<longleftrightarrow> (\<forall>n<linear_draws hidden P True. f n = 0))
         \<and> (linear_zero (AdaptiveLN (FinalLayer_init hidden ps oc f))
              \<longleftrightarrow> (\<forall>n<linear_draws hidden (2 * hidden) True.
                     f (linear_draws hidden P True + n) = 0))
         \<and> linear_zero (adaptiveLN (driver_init_DiT m))
         \<and> linear_zero (AdaptiveLN (driver_init_final (FinalLayer_init hidden ps oc f)))
         \<and> linear_zero (linear_out (driver_init_final (FinalLayer_init hidden ps oc f)))"
proof -
  have a: "adaptiveLN m = nn_Linear hidden (6 * hidden) True (rng_skip K g)"
    using DiffusionTransformer_init_adaLN [OF assms(1)] assms(2) by simp
  note fl = FinalLayer_init_layers [of hidden ps oc f]
  have za: "linear_zero (adaptiveLN m)
              \<longleftrightarrow> (\<forall>n<linear_draws hidden (6 * hidden) True. g (K + n) = 0)"
    unfolding a linear_zero_nn_Linear by (simp add: rng_skip_def)
  have zo: "linear_zero (linear_out (FinalLayer_init hidden ps oc f))
              \<longleftrightarrow> (\<forall>n<linear_draws hidden P True. f n = 0)"
    unfolding fl linear_zero_nn_Linear assms(3) ..
  have zf: "linear_zero (AdaptiveLN (FinalLayer_init hidden ps oc f))
              \<longleftrightarrow> (\<forall>n<linear_draws hidden (2 * hidden) True.
                     f (linear_draws hidden P True + n) = 0)"
    unfolding fl linear_zero_nn_Linear assms(3) by (simp add: rng_skip_def)
  have d: "linear_zero (adaptiveLN (driver_init_DiT m))"
    "linear_zero (AdaptiveLN (driver_init_final (FinalLayer_init hidden ps oc f)))"
    "linear_zero (linear_out (driver_init_final (FinalLayer_init hidden ps oc f)))"
    by (simp_all add: driver_init_DiT_def driver_init_final_def linear_zero_init)
  show ?thesis
    using a fl za zo zf d assms(3) by simp
qed

theorem parameters_zero_only_after_driver_init_witness:
  "DiffusionTransformer_init 1 1 1 1 False (1 / 1000000) 0 True True ex4_rng = Inr ex4_dit
   \<and> adaptiveLN ex4_dit = nn_Linear 1 6 True (rng_skip 10 ex4_rng)
   \<and> linear_out (FinalLayer_init 1 1 1 ex4_rng) = nn_Linear 1 1 True ex4_rng
   \<and> AdaptiveLN (FinalLayer_init 1 1 1 ex4_rng) = nn_Linear 1 2 True (rng_skip 2 ex4_rng)
   \<and> \<not> linear_zero (adaptiveLN ex4_dit)
   \<and> \<not> linear_zero (linear_out (FinalLayer_init 1 1 1 ex4_rng))
   \<and> \<not> linear_zero (AdaptiveLN (FinalLayer_init 1 1 1 ex4_rng))
   \<and> linear_zero (adaptiveLN (driver_init_DiT ex4_dit))
   \<and> linear_zero (AdaptiveLN (driver_init_final (FinalLayer_init 1 1 1 ex4_rng)))
   \<and> linear_zero (linear_out (driver_init_final (FinalLayer_init 1 1 1 ex4_rng)))"
proof -
  have K: "3 * linear_draws 1 (1 * (1 div 1)) True
             + linear_draws 1 (perceptron_hidden_dim ex4_dit) True
             + linear_draws (perceptron_hidden_dim ex4_dit) 1 True = 10"
    by (simp add: linear_draws_def ex4_dit_def)
  note th = parameters_zero_only_after_driver_init
    [OF ex4_construct K [symmetric] refl, of 1 1 ex4_rng]
  from th have e: "adaptiveLN ex4_dit = nn_Linear 1 6 True (rng_skip 10 ex4_rng)"
    "linear_out (FinalLayer_init 1 1 1 ex4_rng) = nn_Linear 1 1 True ex4_rng"
    "AdaptiveLN (FinalLayer_init 1 1 1 ex4_rng) = nn_Linear 1 2 True (rng_skip 2 ex4_rng)"
    by (simp_all add: linear_draws_def numeral_2_eq_2)
  have nz: "\<not> (\<forall>n<k. ex4_rng (f n) = 0)" if "0 < k" for k :: nat and f
    using that by (auto simp: ex4_rng_def)
  have pos: "0 < linear_draws 1 (6 * 1) True" "0 < linear_draws 1 (1 * 1 * 1) True"
    "0 < linear_draws 1 (2 * 1) True"
    by (simp_all add: linear_draws_def)
  have n: "\<not> linear_zero (adaptiveLN ex4_dit)"
    "\<not> linear_zero (linear_out (FinalLayer_init 1 1 1 ex4_rng))"
    "\<not> linear_zero (AdaptiveLN (FinalLayer_init 1 1 1 ex4_rng))"
    using th nz [OF pos(1), of "\<lambda>n. 10 + n"] nz [OF pos(2), of "\<lambda>n. n"]
      nz [OF pos(3), of "\<lambda>n. linear_draws 1 (1 * 1 * 1) True + n"]
    by blast+
  from th have d: "linear_zero (adaptiveLN (driver_init_DiT ex4_dit))"
    "linear_zero (AdaptiveLN (driver_init_final (FinalLayer_init 1 1 1 ex4_rng)))"
    "linear_zero (linear_out (driver_init_final (FinalLayer_init 1 1 1 ex4_rng)))"
    by simp_all
  show ?thesis
    using ex4_construct e n d by simp
qed

subsection \<open>The mask of Attention\<close>

lemma ex2_project:
  "project_heads ex2_attention (query_projection ex2_attention) 2 ex2_x = Inr ex2_heads"
  by code_simp

lemma ex2_project_value:
  "project_heads ex2_attention (query_projection ex2_attention) 2 ex2_value
     = Inr ex2_value_heads"
  by code_simp

lemma ex2_transpose: "transpose_t 1 2 ex2_heads = Inr ex2_keyT"
  by code_simp

lemma ex2_bmm: "bmm ex2_heads ex2_keyT = Inr ex2_scores"
  by code_simp

lemma ex2_scale:
  "map_tensor (\<lambda>s. s / sqrt (real (div_dimension ex2_attention))) ex2_scores = ex2_scores"
  by (simp add: map_tensor_def ex2_scores_def)

lemma ex2_apply_mask: "apply_mask ex2_attention ex2_scores (Some ex2_mask) = Inr ex2_masked"
  by code_simp

lemma ex2_softmax: "softmax ex2_masked = Inr ex2_weights"
  by (simp add: softmax_def ex2_masked_def ex2_weights_def row_of_def softmax_row_def
      upt_unroll Let_def)

lemma ex2_weighted: "bmm ex2_weights ex2_value_heads = Inr ex2_context_heads"
  by code_simp

lemma ex2_merge:
  "bnd (view [Some (num_heads ex2_attention), Some 2, None, Some (div_dimension ex2_attention)]
          ex2_context_heads) (\<lambda>context.
   bnd (permute [1, 2, 0, 3] context) (\<lambda>context.
   bnd (view [Some 2, None, Some (num_heads ex2_attention * div_dimension ex2_attention)] context)
     (\<lambda>context. Inr (context, ex2_weights)))) = Inr (ex2_context, ex2_weights)"
  by code_simp

lemma ex2_forward:
  "Attention_forward ex2_attention ex2_x ex2_x ex2_value (Some ex2_mask)
     = Inr (ex2_context, ex2_weights)"
proof -
  have s: "shape ex2_value = [2, 2, 2]" by (simp add: ex2_value_def)
  show ?thesis
    by (simp only: Attention_forward_def attend_def s list.case ex2_project ex2_project_value
        ex2_transpose ex2_bmm ex2_scale ex2_apply_mask ex2_softmax ex2_weighted ex2_merge
        bnd.simps)
qed

text \<open>A row whose keys are all masked has no softmax.\<close>

lemma softmax_all_masked: "softmax \<lparr>shape = [1, 1, 1], data = [NegInf]\<rparr> = Inl NotANumber"
  by (simp add: softmax_def softmax_row_def row_of_def)

text \<open>
  Claim C2 says that a position masked for sample \<open>b\<close> and head \<open>h\<close> has weight 0 at
  the entry of that sample and head. The scores are merged with the head in front
  (row \<open>h * B + b\<close>), the repeated mask with the batch in front (row \<open>b * heads + h\<close>).
  With two samples and two heads, key 1 is masked in sample 0 only. Row \<open>1 * 2 + 0\<close>
  of the weights, head 1 of sample 0, has weight one half at key 1, and row
  \<open>0 * 2 + 1\<close>, head 0 of sample 1, where nothing is masked, has weight 0 there. The
  context shows the same: in sample 0 the second feature (head 1) is 3, the mean of the
  values 2 and 4 of keys 0 and 1, and in sample 1 the first feature (head 0) is 5, the
  value of key 0 alone.
\<close>

theorem mask_reaches_other_sample:
  "Attention_forward ex2_attention ex2_x ex2_x ex2_value (Some ex2_mask)
     = Inr (ex2_context, ex2_weights)
   \<and> entry ex2_mask [0, 0, 1]
   \<and> entry ex2_weights [1 * 2 + 0, 0, 1] = 1 / 2
   \<and> entry ex2_value [0, 0, 1] = 2 \<and> entry ex2_value [0, 1, 1] = 4
   \<and> entry ex2_context [0, 0, 1] = 3
   \<and> entry ex2_mask [1, 0, 1] = False
   \<and> entry ex2_weights [0 * 2 + 1, 0, 1] = 0
   \<and> entry ex2_value [1, 0, 0] = 5 \<and> entry ex2_value [1, 1, 0] = 7
   \<and> entry ex2_context [1, 0, 0] = 5"
  by (simp add: ex2_forward)
    (simp add: entry_def ex2_mask_def ex2_weights_def ex2_value_def ex2_context_def)

subsection \<open>The residuals of the block\<close>

lemma ex3_chunks:
  "adaLN_chunks (adaptiveLN ex3_dit) 6 ex3_c
     = Inr [ex3_vec 0, ex3_vec 0, ex3_vec 1, ex3_vec 0, ex3_vec 0, ex3_vec 0]"
  by (simp add: adaLN_chunks_def ex3_dit_def ex3_adaLN_def ex3_c_def ex3_vec_def silu_def
      chunk1_def tensor_eval)

lemma ex3_layer_norm: "layer_norm_forward ex3_norm (ex3_tok v) = Inr (ex3_tok 0)"
  by (simp add: layer_norm_forward_def layer_norm_row_def ex3_norm_def ex3_tok_def tensor_eval)

lemma ex3_modulate: "modulate (ex3_tok 0) (ex3_vec 0) (ex3_vec 0) = Inr (ex3_tok 0)"
  by (simp add: modulate_def mul_t_def add_t_def binop_def broadcastable_def bshape_def
      bidx_def ex3_tok_def ex3_vec_def tensor_eval)

lemma ex3_project:
  "project_heads ex3_attention (ex3_linear 1 1) 1 (ex3_tok 0) = Inr (ex3_tok 1)"
  by (simp add: project_heads_def ex3_attention_def ex3_linear_def ex3_tok_def tensor_eval)

lemma ex3_attend:
  "attend ex3_attention 1 (ex3_tok 1) (ex3_tok 1) (ex3_tok 1) None
     = Inr (ex3_tok 1, ex3_tok 1)"
  by (simp add: attend_def apply_mask_def softmax_def softmax_row_def ex3_attention_def
      ex3_tok_def tensor_eval)

lemma ex3_attention_forward:
  "Attention_forward ex3_attention (ex3_tok 0) (ex3_tok 0) (ex3_tok 0) None
     = Inr (ex3_tok 1, ex3_tok 1)"
proof -
  have s: "shape (ex3_tok 0) = [1, 1, 1]" by (simp add: ex3_tok_def)
  have q: "query_projection ex3_attention = ex3_linear 1 1" by (simp add: ex3_attention_def)
  show ?thesis
    by (simp only: Attention_forward_def s list.case q ex3_project bnd.simps ex3_attend)
qed

lemma ex3_gated: "gated (ex3_tok a) (ex3_vec g) (ex3_tok y) = Inr (ex3_tok (a + g * y))"
  by (simp add: gated_def mul_t_def add_t_def binop_def broadcastable_def bshape_def
      bidx_def ex3_tok_def ex3_vec_def tensor_eval)

lemma ex3_perceptron_forward:
  "AttentionPerceptron_forward ex3_perceptron k1 k2 (ex3_tok 0) = Inr (ex3_tok 0)"
  by (simp add: AttentionPerceptron_forward_def ex3_perceptron_def ex3_linear_def ex3_tok_def
      gelu_tanh_def dropout_def tensor_eval)

text \<open>
  Claim C3 says that the block returns \<open>attn_out\<close> plus the gated perceptron output.
  The source computes \<open>attn_out\<close> and feeds it to the second normalisation, but adds
  the gated perceptron output to \<open>x\<close> (line 345), so the attention residual is lost.
  With hidden size 1, one token, input 1, attention gate 1 and perceptron gate 0, the
  attention adds 1: the block returns 1 where the claimed formula gives 2.
\<close>

theorem block_drops_attention_residual:
  "DiffusionTransformer_forward ex3_dit ex3_keep ex3_keep (ex3_tok 1) ex3_c = Inr (ex3_tok 1)
   \<and> DiffusionTransformer_forward_spec ex3_dit ex3_keep ex3_keep (ex3_tok 1) ex3_c
       = Inr (ex3_tok 2)
   \<and> ex3_tok 1 \<noteq> ex3_tok 2"
proof -
  have f: "norm1 ex3_dit = ex3_norm" "norm2 ex3_dit = ex3_norm"
    "attention ex3_dit = ex3_attention" "perceptron ex3_dit = ex3_perceptron"
    by (simp_all add: ex3_dit_def)
  have g1: "gated (ex3_tok 1) (ex3_vec 1) (ex3_tok 1) = Inr (ex3_tok 2)"
    using ex3_gated [of 1 1 1] by simp
  have g2: "gated (ex3_tok 1) (ex3_vec 0) (ex3_tok 0) = Inr (ex3_tok 1)"
    using ex3_gated [of 1 0 0] by simp
  have g3: "gated (ex3_tok 2) (ex3_vec 0) (ex3_tok 0) = Inr (ex3_tok 2)"
    using ex3_gated [of 2 0 0] by simp
  have a: "DiffusionTransformer_forward ex3_dit ex3_keep ex3_keep (ex3_tok 1) ex3_c
             = Inr (ex3_tok 1)"
    by (simp only: DiffusionTransformer_forward_def ex3_chunks bnd.simps list.case f
        ex3_layer_norm ex3_modulate ex3_attention_forward fst_conv g1 g2
        ex3_perceptron_forward)
  have b: "DiffusionTransformer_forward_spec ex3_dit ex3_keep ex3_keep (ex3_tok 1) ex3_c
             = Inr (ex3_tok 2)"
    by (simp only: DiffusionTransformer_forward_spec_def ex3_chunks bnd.simps list.case f
        ex3_layer_norm ex3_modulate ex3_attention_forward fst_conv g1 g3
        ex3_perceptron_forward)
  have c: "ex3_tok 1 \<noteq> ex3_tok 2" by (simp add: ex3_tok_def)
  show ?thesis using a b c by simp
qed

subsection \<open>Shapes and weights of Attention\<close>

lemma Attention_init_dims:
  assumes "Attention_init H N g = Inr a"
  shows "num_heads a = N" and "div_dimension a = H div N" and "N \<noteq> 0" and "H mod N = 0"
    and "in_features (query_projection a) = H"
    and "out_features (query_projection a) = N * (H div N)"
    and "N * (H div N) = H"
  using assms
  by (auto simp: Attention_init_def Let_def nn_Linear_def split: if_splits)

lemma ex8_construct: "Attention_init 2 2 ex4_rng = Inr ex8_attention"
  by (simp add: Attention_init_def nn_Linear_def ex4_rng_def ex8_attention_def ex8_linear_def
      rng_skip_def linear_draws_def upt_unroll Let_def)

text \<open>
  Claim C8. For an \<^verbatim>\<open>Attention\<close> constructed with dimension \<open>H\<close> and \<open>N\<close> heads (so
  that \<open>N\<close> divides \<open>H\<close>), and query, key and value of shape \<open>[B, T, H]\<close> with no mask,
  \<^verbatim>\<open>forward\<close> returns a context of shape \<open>[B, T, H]\<close> and weights of shape
  \<open>[B * N, T, T]\<close>, and every row of the weights sums to 1. The batch and the dimension
  are not empty: on a tensor without entries \<^verbatim>\<open>view(batch_size, -1, ...)\<close> cannot infer
  the token axis. The draws \<open>g\<close> are arbitrary, and so are the parameters.
\<close>

theorem attention_shapes_and_row_sums:
  assumes "Attention_init H N g = Inr a"
    and "0 < B" and "0 < H"
    and "shape query = [B, T, H]" and "shape key = [B, T, H]" and "shape value = [B, T, H]"
  shows "\<exists>context w. Attention_forward a query key value None = Inr (context, w)
           \<and> shape context = [B, T, H] \<and> wf_tensor context
           \<and> shape w = [B * N, T, T] \<and> wf_tensor w
           \<and> (\<forall>p<B * N. \<forall>i<T. sum_upto T (\<lambda>j. entry w [p, i, j]) = 1)"
proof -
  note d = Attention_init_dims [OF assms(1)]
  have "\<exists>context w. Attention_forward a query key value None = Inr (context, w)
           \<and> shape context = [B, T, H] \<and> wf_tensor context
           \<and> shape w = [B * num_heads a, T, T] \<and> wf_tensor w
           \<and> (\<forall>p<B * num_heads a. \<forall>i<T. sum_upto T (\<lambda>j. entry w [p, i, j]) = 1)"
    using assms(2-6) d by (intro Attention_forward_ex) simp_all
  then show ?thesis by (simp add: d(1))
qed

theorem attention_shapes_and_row_sums_witness:
  "Attention_init 2 2 ex4_rng = Inr ex8_attention
   \<and> shape ex2_x = [2, 2, 2]
   \<and> (\<exists>context w. Attention_forward ex8_attention ex2_x ex2_x ex2_x None = Inr (context, w)
         \<and> shape context = [2, 2, 2] \<and> shape w = [4, 2, 2]
         \<and> sum_upto 2 (\<lambda>j. entry w [0, 0, j]) = 1
         \<and> sum_upto 2 (\<lambda>j. entry w [3, 1, j]) = 1)"
proof -
  have s: "shape ex2_x = [2, 2, 2]" by (simp add: ex2_x_def)
  have "\<exists>context w. Attention_forward ex8_attention ex2_x ex2_x ex2_x None = Inr (context, w)
           \<and> shape context = [2, 2, 2] \<and> wf_tensor context
           \<and> shape w = [2 * 2, 2, 2] \<and> wf_tensor w
           \<and> (\<forall>p<2 * 2. \<forall>i<2. sum_upto 2 (\<lambda>j. entry w [p, i, j]) = 1)"
    using attention_shapes_and_row_sums [OF ex8_construct _ _ s s s] by simp
  then obtain ctx w where
    f: "Attention_forward ex8_attention ex2_x ex2_x ex2_x None = Inr (ctx, w)"
       "shape ctx = [2, 2, 2]" "shape w = [2 * 2, 2, 2]"
    and r: "\<forall>p<2 * 2. \<forall>i<2. sum_upto 2 (\<lambda>j. entry w [p, i, j]) = 1"
    by blast
  have "sum_upto 2 (\<lambda>j. entry w [0, 0, j]) = 1" "sum_upto 2 (\<lambda>j. entry w [3, 1, j]) = 1"
    using r by simp_all
  then show ?thesis using ex8_construct s f by auto
qed

subsection \<open>FinalLayer with a zero output layer\<close>

lemma adaLN_chunks_ex:
  assumes "shape c = [B, in_features l]" and "out_features l = n * H" and "0 < n"
  shows "\<exists>z. linear_forward l (map_tensor silu c) = Inr z \<and> shape z = [B, n * H]
           \<and> wf_tensor z
           \<and> adaLN_chunks l n c =
               Inr (map (\<lambda>j. tabulate [B, H] (\<lambda>idx. entry z (idx[1 := idx ! 1 + j * H])))
                        [0..<n])"
proof -
  obtain z where z: "linear_forward l (map_tensor silu c) = Inr z" "shape z = [B, n * H]"
    "wf_tensor z"
    using linear_forward_ex [of "map_tensor silu c" "[B]" l] assms(1,2) by auto
  show ?thesis
    using z chunk1_even [OF z(2) assms(3)] by (simp add: adaLN_chunks_def)
qed

lemma tabulate_zero_data: "list_all (\<lambda>v. v = 0) (data (tabulate s (\<lambda>idx. 0 :: real)))"
  by (rule data_tabulate_all) simp

lemma linear_wf_nn_Linear [simp]: "linear_wf (nn_Linear i out b g)"
  by (simp add: linear_wf_def nn_Linear_def)

lemma linear_wf_init_constant:
  "linear_wf l \<Longrightarrow> linear_wf (init_constant_bias v (init_constant_weight w l))"
  by (cases "bias l") (simp_all add: linear_wf_def init_constant_bias_def
      init_constant_weight_def)

lemma features_init_constant [simp]:
  "in_features (init_constant_bias v (init_constant_weight w l)) = in_features l"
  "out_features (init_constant_bias v (init_constant_weight w l)) = out_features l"
  by (simp_all add: init_constant_bias_def init_constant_weight_def)

lemma final_dims_init:
  "final_dims (driver_init_final (FinalLayer_init H ps oc g)) H (ps * ps * oc)"
  by (simp add: final_dims_def driver_init_final_def FinalLayer_init_def
      linear_wf_init_constant) (simp add: nn_Linear_def nn_LayerNorm_def)

lemma final_zero_init:
  "linear_zero (linear_out (driver_init_final m))"
  by (simp add: driver_init_final_def linear_zero_init)

text \<open>
  Claim C7. For every \<open>x\<close> of shape \<open>[B, T, H]\<close> and \<open>c\<close> of shape \<open>[B, H]\<close>, a
  \<^verbatim>\<open>FinalLayer\<close> of hidden size \<open>H\<close> whose output linear layer has zero weight and bias
  returns a tensor of shape \<open>[B, T, P]\<close> that is zero everywhere, where \<open>P\<close> is the
  number of output features, \<open>patch_size\<^sup>2 * out_channels\<close> for a constructed layer
  (\<open>final_dims_init\<close>). This holds whatever the parameters of the adaLN projection
  are, so in particular when they are zero as well.
\<close>

theorem final_layer_zero:
  assumes "final_dims m H P" and "linear_zero (linear_out m)"
    and "shape x = [B, T, H]" and "shape c = [B, H]"
  shows "\<exists>r. FinalLayer_forward m x c = Inr r \<and> shape r = [B, T, P] \<and> wf_tensor r
           \<and> list_all (\<lambda>v. v = 0) (data r)"
proof -
  from assms(1) have d: "normalized_shape (layernorm m) = H"
    "in_features (AdaptiveLN m) = H" "out_features (AdaptiveLN m) = 2 * H"
    "in_features (linear_out m) = H" "out_features (linear_out m) = P"
    "linear_wf (linear_out m)" and e: "0 < eps (layernorm m)"
    by (simp_all add: final_dims_def)
  obtain z where ch: "adaLN_chunks (AdaptiveLN m) 2 c =
      Inr (map (\<lambda>j. tabulate [B, H] (\<lambda>idx. entry z (idx[1 := idx ! 1 + j * H]))) [0..<2])"
    using adaLN_chunks_ex [of c B "AdaptiveLN m" 2 H] assms(4) d(2,3) by auto
  let ?shift = "tabulate [B, H] (\<lambda>idx. entry z (idx[1 := idx ! 1 + 0 * H]))"
  let ?scale = "tabulate [B, H] (\<lambda>idx. entry z (idx[1 := idx ! 1 + 1 * H]))"
  have ch2: "adaLN_chunks (AdaptiveLN m) 2 c = Inr [?shift, ?scale]"
    unfolding ch upt_2 by simp
  obtain n where n: "layer_norm_forward (layernorm m) x = Inr n" "shape n = [B, T, H]"
    using layer_norm_forward_ex [of x "[B, T]" "layernorm m"] assms(3) d(1) e by auto
  obtain y where y: "modulate n ?shift ?scale = Inr y" "shape y = [B, T, H]"
    using modulate_ex [OF n(2), of ?shift ?scale] by auto
  have lf: "linear_forward (linear_out m) y = Inr (tabulate ([B, T] @ [P]) (\<lambda>idx. 0))"
    using linear_forward_zero [of y "[B, T]" "linear_out m"] y(2) d(4,5,6) assms(2) by simp
  have "FinalLayer_forward m x c = Inr (tabulate [B, T, P] (\<lambda>idx. 0))"
    using n(1) y(1) lf by (simp add: FinalLayer_forward_def ch2)
  then show ?thesis by (simp add: tabulate_zero_data)
qed

theorem final_layer_zero_witness:
  "final_dims (driver_init_final (FinalLayer_init 1 1 1 ex4_rng)) 1 1
   \<and> linear_zero (linear_out (driver_init_final (FinalLayer_init 1 1 1 ex4_rng)))
   \<and> shape (ex3_tok 5) = [1, 1, 1] \<and> shape (ex3_vec 3) = [1, 1]
   \<and> FinalLayer_forward (driver_init_final (FinalLayer_init 1 1 1 ex4_rng))
        (ex3_tok 5) (ex3_vec 3) = Inr (ex3_tok 0)"
proof -
  let ?m = "driver_init_final (FinalLayer_init 1 1 1 ex4_rng)"
  have d: "final_dims ?m 1 1" using final_dims_init [of 1 1 1 ex4_rng] by simp
  have z: "linear_zero (linear_out ?m)" by (rule final_zero_init)
  have sx: "shape (ex3_tok 5) = [1, 1, 1]" and sc: "shape (ex3_vec 3) = [1, 1]"
    by (simp_all add: ex3_tok_def ex3_vec_def)
  obtain r where r: "FinalLayer_forward ?m (ex3_tok 5) (ex3_vec 3) = Inr r"
    "shape r = [1, 1, 1]" "wf_tensor r" "list_all (\<lambda>v. v = 0) (data r)"
    using final_layer_zero [OF d z sx sc] by blast
  have "length (data r) = 1" using r(2,3) by (simp add: wf_tensor_def)
  then obtain v where "data r = [v]" by (cases "data r") auto
  then have "r = ex3_tok 0" using r(2,4) by (cases r) (simp add: ex3_tok_def)
  then show ?thesis using d z sx sc r(1) by simp
qed

subsection \<open>The block with a zero conditioning projection\<close>

lemma shape_dropout [simp]: "shape (dropout p tr keep t) = shape t"
  by (simp add: dropout_def)

lemma AttentionPerceptron_forward_ex:
  assumes "shape x = [B, T, in_features (fc1 m)]"
    and "in_features (fc2 m) = out_features (fc1 m)"
    and "case norm m of None \<Rightarrow> True
         | Some l \<Rightarrow> normalized_shape l = out_features (fc1 m) \<and> 0 < eps l"
  shows "\<exists>p. AttentionPerceptron_forward m keep1 keep2 x = Inr p
           \<and> shape p = [B, T, out_features (fc2 m)]"
proof -
  obtain h where h: "linear_forward (fc1 m) x = Inr h" "shape h = [B, T, out_features (fc1 m)]"
    using linear_forward_ex [of x "[B, T]" "fc1 m"] assms(1) by auto
  let ?a = "dropout (drop1 m) (training m) keep1 (map_tensor gelu_tanh h)"
  have a: "shape ?a = [B, T, out_features (fc1 m)]" using h(2) by simp
  have "\<exists>n. (case norm m of None \<Rightarrow> Inr ?a | Some l \<Rightarrow> layer_norm_forward l ?a) = Inr n
          \<and> shape n = [B, T, out_features (fc1 m)]"
  proof (cases "norm m")
    case None
    then show ?thesis using a by simp
  next
    case (Some l)
    then have "normalized_shape l = out_features (fc1 m)" "0 < eps l" using assms(3) by simp_all
    then show ?thesis
      using layer_norm_forward_ex [of ?a "[B, T]" l] a Some by auto
  qed
  then obtain n where
    n: "(case norm m of None \<Rightarrow> Inr ?a | Some l \<Rightarrow> layer_norm_forward l ?a) = Inr n"
    "shape n = [B, T, out_features (fc1 m)]"
    by blast
  obtain p where p: "linear_forward (fc2 m) n = Inr p" "shape p = [B, T, out_features (fc2 m)]"
    using linear_forward_ex [of n "[B, T]" "fc2 m"] n(2) assms(2) by auto
  show ?thesis
    using h(1) n(1) p by (simp add: AttentionPerceptron_forward_def Let_def)
qed

lemma AttentionPerceptron_init_dims:
  assumes "AttentionPerceptron_init i (Some h) (Some out) pln b p g = Inr mlp"
  shows "in_features (fc1 mlp) = i" and "out_features (fc1 mlp) = h"
    and "in_features (fc2 mlp) = h" and "out_features (fc2 mlp) = out"
    and "case norm mlp of None \<Rightarrow> True | Some l \<Rightarrow> normalized_shape l = h \<and> 0 < eps l"
  using assms
  by (auto simp: AttentionPerceptron_init_def Let_def nn_Linear_def nn_LayerNorm_def
      to_2tuple_def n_tuples_def elim!: bnd_InrE)

lemma DiffusionTransformer_init_dims:
  assumes "DiffusionTransformer_init H N H ratio aff e p b pln g = Inr m" and "0 < e"
  shows "block_dims m H"
proof -
  from assms obtain a where a: "Attention_init H N g = Inr a"
    by (auto simp: DiffusionTransformer_init_def elim!: bnd_InrE)
  note ad = Attention_init_dims [OF a]
  let ?hd = "py_int (real H * ratio)"
  from assms a have nn: "\<not> ?hd < 0"
    by (auto simp: DiffusionTransformer_init_def Let_def split: if_splits)
  from assms a nn obtain mlp g' where
    mlp: "AttentionPerceptron_init H (Some (nat ?hd)) (Some H) pln b p g' = Inr mlp"
    and m: "attention m = a" "perceptron m = mlp" "normalized_shape (norm1 m) = H"
      "normalized_shape (norm2 m) = H" "in_features (adaptiveLN m) = H"
      "out_features (adaptiveLN m) = 6 * H" "eps (norm1 m) = e" "eps (norm2 m) = e"
    by (auto simp: DiffusionTransformer_init_def Let_def nn_Linear_def nn_LayerNorm_def
        elim!: bnd_InrE)
  note pd = AttentionPerceptron_init_dims [OF mlp]
  show ?thesis
    unfolding block_dims_def m using ad pd m(3-8) assms(2) by (simp split: option.splits)
qed

lemma block_dims_driver_init: "block_dims m H \<Longrightarrow> block_dims (driver_init_DiT m) H"
  by (simp add: block_dims_def driver_init_DiT_def cong: option.case_cong)

lemma ex4_dims: "block_dims ex4_dit 1"
  using DiffusionTransformer_init_dims [of 1 1 1 False "1 / 1000000" 0 True True ex4_rng ex4_dit]
    ex4_construct by simp

text \<open>
  Claim C6. For a block of hidden size \<open>H\<close>, \<open>x\<close> of shape \<open>[B, T, H]\<close> and \<open>c\<close> of shape
  \<open>[B, H]\<close>, whenever the adaLN projection returns zero everywhere on \<open>c\<close>, the block
  returns exactly \<open>x\<close>, whatever \<open>c\<close> and the dropout draws are. The batch and the
  hidden size are not empty, as the attention inside needs (see C8); \<open>block_dims\<close>
  holds for every constructed block whose attention dimension is its hidden size
  (\<open>DiffusionTransformer_init_dims\<close>).
\<close>

theorem block_identity_when_adaLN_zero:
  assumes "block_dims m H" and "0 < B" and "0 < H"
    and "shape x = [B, T, H]" and "wf_tensor x" and "shape c = [B, H]"
    and "linear_forward (adaptiveLN m) (map_tensor silu c) = Inr z"
    and "list_all (\<lambda>v. v = 0) (data z)"
  shows "DiffusionTransformer_forward m keep1 keep2 x c = Inr x"
proof -
  from assms(1) have e: "0 < eps (norm1 m)" "0 < eps (norm2 m)"
    by (simp_all add: block_dims_def)
  from assms(1) have d: "normalized_shape (norm1 m) = H" "normalized_shape (norm2 m) = H"
    "in_features (query_projection (attention m)) = H"
    "out_features (query_projection (attention m))
       = num_heads (attention m) * div_dimension (attention m)"
    "num_heads (attention m) * div_dimension (attention m) = H"
    "in_features (fc1 (perceptron m)) = H"
    "in_features (fc2 (perceptron m)) = out_features (fc1 (perceptron m))"
    "case norm (perceptron m) of None \<Rightarrow> True
     | Some l \<Rightarrow> normalized_shape l = out_features (fc1 (perceptron m)) \<and> 0 < eps l"
    "out_features (fc2 (perceptron m)) = H"
    "in_features (adaptiveLN m) = H" "out_features (adaptiveLN m) = 6 * H"
    by (simp_all add: block_dims_def)
  let ?ch = "\<lambda>j. tabulate [B, H] (\<lambda>idx. entry z (idx[1 := idx ! 1 + j * H]))"
  have z: "shape z = [B, 6 * H]" "wf_tensor z"
    and ch: "adaLN_chunks (adaptiveLN m) 6 c = Inr (map ?ch [0..<6])"
    using adaLN_chunks_ex [of c B "adaptiveLN m" 6 H] assms(6,7) d(10,11) by auto
  have ch6: "adaLN_chunks (adaptiveLN m) 6 c = Inr [?ch 0, ?ch 1, ?ch 2, ?ch 3, ?ch 4, ?ch 5]"
    unfolding ch upt_6 by simp
  have zero: "list_all (\<lambda>v. v = 0) (data (?ch j))" if "j < 6" for j
    using chunk_zero [OF z(1) z(2) assms(8) that] .
  have shp: "shape (?ch j) = [B, H]" "wf_tensor (?ch j)" for j
    by simp_all
  obtain n1 where n1: "layer_norm_forward (norm1 m) x = Inr n1" "shape n1 = [B, T, H]"
    using layer_norm_forward_ex [of x "[B, T]" "norm1 m"] assms(4) d(1) e(1) by auto
  obtain ai where ai: "modulate n1 (?ch 0) (?ch 1) = Inr ai" "shape ai = [B, T, H]"
    using modulate_ex [OF n1(2), of "?ch 0" "?ch 1"] by auto
  obtain ctx w where att: "Attention_forward (attention m) ai ai ai None = Inr (ctx, w)"
    "shape ctx = [B, T, H]"
    using Attention_forward_ex [OF ai(2) ai(2) ai(2) d(3) d(4) d(5) [symmetric] assms(2,3)]
    by auto
  have g1: "gated x (?ch 2) ctx = Inr x"
    using assms(4,5) att(2) shp zero [of 2] by (intro gated_zero) simp_all
  obtain n2 where n2: "layer_norm_forward (norm2 m) x = Inr n2" "shape n2 = [B, T, H]"
    using layer_norm_forward_ex [of x "[B, T]" "norm2 m"] assms(4) d(2) e(2) by auto
  obtain pin where pin: "modulate n2 (?ch 3) (?ch 4) = Inr pin" "shape pin = [B, T, H]"
    using modulate_ex [OF n2(2), of "?ch 3" "?ch 4"] by auto
  obtain p where p: "AttentionPerceptron_forward (perceptron m) keep1 keep2 pin = Inr p"
    "shape p = [B, T, H]"
    using AttentionPerceptron_forward_ex [of pin B T "perceptron m" keep1 keep2]
      pin(2) d(6,7,8,9) by auto
  have g2: "gated x (?ch 5) p = Inr x"
    using assms(4,5) p(2) shp zero [of 5] by (intro gated_zero) simp_all
  show ?thesis
    unfolding DiffusionTransformer_forward_def ch6
    using n1(1) ai(1) att(1) g1 n2(1) pin(1) p(1) g2 by simp
qed

theorem block_identity_when_adaLN_zero_witness:
  "block_dims (driver_init_DiT ex4_dit) 1
   \<and> shape (ex3_tok 5) = [1, 1, 1] \<and> wf_tensor (ex3_tok 5) \<and> shape (ex3_vec 3) = [1, 1]
   \<and> linear_forward (adaptiveLN (driver_init_DiT ex4_dit)) (map_tensor silu (ex3_vec 3))
       = Inr \<lparr>shape = [1, 6], data = [0, 0, 0, 0, 0, 0]\<rparr>
   \<and> DiffusionTransformer_forward (driver_init_DiT ex4_dit) ex3_keep ex3_keep
        (ex3_tok 5) (ex3_vec 3) = Inr (ex3_tok 5)"
proof -
  let ?m = "driver_init_DiT ex4_dit"
  have d: "block_dims ?m 1" using ex4_dims by (rule block_dims_driver_init)
  have sx: "shape (ex3_tok 5) = [1, 1, 1]" and wx: "wf_tensor (ex3_tok 5)"
    and sc: "shape (ex3_vec 3) = [1, 1]"
    by (simp_all add: ex3_tok_def ex3_vec_def wf_tensor_def)
  have z: "linear_forward (adaptiveLN ?m) (map_tensor silu (ex3_vec 3))
             = Inr \<lparr>shape = [1, 6], data = [0, 0, 0, 0, 0, 0]\<rparr>"
  proof -
    let ?l = "adaptiveLN ?m"
    have l: "?l = init_constant_bias 0 (init_constant_weight 0 (ex4_linear 6))"
      by (simp add: driver_init_DiT_def ex4_dit_def)
    have wf: "linear_wf (ex4_linear 6)" by (simp add: linear_wf_def ex4_linear_def)
    have f: "in_features ?l = 1" "out_features ?l = 6"
      unfolding l by (simp_all add: ex4_linear_def)
    have sh: "shape (map_tensor silu (ex3_vec 3)) = [1] @ [in_features ?l]"
      using f by (simp add: ex3_vec_def)
    have lz: "linear_zero ?l" unfolding l by (rule linear_zero_init)
    have lw: "linear_wf ?l" unfolding l using wf by (rule linear_wf_init_constant)
    have "linear_forward ?l (map_tensor silu (ex3_vec 3))
            = Inr (tabulate ([1] @ [out_features ?l]) (\<lambda>idx. 0))"
      using sh lz lw by (rule linear_forward_zero)
    moreover have "tabulate [1, 6] (\<lambda>idx. 0 :: real)
                     = \<lparr>shape = [1, 6], data = [0, 0, 0, 0, 0, 0]\<rparr>"
      by (simp add: tabulate_def upt_unroll)
    ultimately show ?thesis using f by simp
  qed
  have zz: "list_all (\<lambda>v. v = 0) (data \<lparr>shape = [1, 6], data = [0, 0, 0, 0, 0, 0 :: real]\<rparr>)"
    by simp
  have "DiffusionTransformer_forward ?m ex3_keep ex3_keep (ex3_tok 5) (ex3_vec 3)
          = Inr (ex3_tok 5)"
    using block_identity_when_adaLN_zero [OF d _ _ sx wx sc z zz] by simp
  then show ?thesis using d sx wx sc z by simp
qed

end
